theory Spec2Isabelle
  imports Complex_Main "HOL-Library.Char_ord"
begin

section \<open>JavaScript values\<close>

subsection \<open>Numbers\<close>

text \<open>
  A JavaScript number is modelled by its exact value: a rational, one of the two
  infinities, or NaN.  The operations compute on the exact values: the rounding of
  IEEE 754 doubles and the sign of zero are not part of them.  A property that depends
  on the rounding is stated for the doubles nearest to the amounts (\<open>nearest_double\<close>
  below) and for amounts small enough that the rounding does not reach the second
  decimal.
\<close>

datatype number = NaN | PosInf | NegInf | Fin rat

fun isNaN :: "number \<Rightarrow> bool" where
  "isNaN NaN = True"
| "isNaN _ = False"

text \<open>\<open>a + b\<close>\<close>

fun js_add :: "number \<Rightarrow> number \<Rightarrow> number" where
  "js_add (Fin a) (Fin b) = Fin (a + b)"
| "js_add NaN _ = NaN"
| "js_add _ NaN = NaN"
| "js_add PosInf NegInf = NaN"
| "js_add NegInf PosInf = NaN"
| "js_add PosInf _ = PosInf"
| "js_add _ PosInf = PosInf"
| "js_add NegInf _ = NegInf"
| "js_add _ NegInf = NegInf"

text \<open>\<open>-a\<close>\<close>

fun js_neg :: "number \<Rightarrow> number" where
  "js_neg (Fin a) = Fin (- a)"
| "js_neg NaN = NaN"
| "js_neg PosInf = NegInf"
| "js_neg NegInf = PosInf"

text \<open>\<open>a - b\<close>\<close>

definition js_sub :: "number \<Rightarrow> number \<Rightarrow> number" where
  "js_sub a b = js_add a (js_neg b)"

text \<open>The sign of a number that is not NaN: \<open>-1\<close>, \<open>0\<close> or \<open>1\<close>.\<close>

fun js_sign :: "number \<Rightarrow> int" where
  "js_sign (Fin a) = (if a < 0 then - 1 else if a = 0 then 0 else 1)"
| "js_sign PosInf = 1"
| "js_sign NegInf = - 1"
| "js_sign NaN = 0"

definition signed_inf :: "int \<Rightarrow> number" where
  "signed_inf k = (if k < 0 then NegInf else PosInf)"

text \<open>\<open>a * b\<close>\<close>

fun js_mul :: "number \<Rightarrow> number \<Rightarrow> number" where
  "js_mul (Fin a) (Fin b) = Fin (a * b)"
| "js_mul NaN _ = NaN"
| "js_mul _ NaN = NaN"
| "js_mul a b =
     (if js_sign a = 0 \<or> js_sign b = 0 then NaN else signed_inf (js_sign a * js_sign b))"

text \<open>
  \<open>a / b\<close>.  Dividing by zero does not raise: it yields an infinity, or NaN for
  \<open>0 / 0\<close>.  A zero divisor counts as positive zero.
\<close>

fun js_div :: "number \<Rightarrow> number \<Rightarrow> number" where
  "js_div NaN _ = NaN"
| "js_div _ NaN = NaN"
| "js_div (Fin a) (Fin b) =
     (if b \<noteq> 0 then Fin (a / b) else if a = 0 then NaN else signed_inf (js_sign (Fin a)))"
| "js_div (Fin a) _ = Fin 0"
| "js_div a (Fin b) = signed_inf (js_sign a * (if b < 0 then - 1 else 1))"
| "js_div _ _ = NaN"

text \<open>\<open>a > 0\<close>\<close>

fun js_pos :: "number \<Rightarrow> bool" where
  "js_pos (Fin a) = (0 < a)"
| "js_pos PosInf = True"
| "js_pos _ = False"

text \<open>
  The remainder \<open>a % b\<close> on integers takes the sign of the dividend.
\<close>

definition js_rem :: "int \<Rightarrow> int \<Rightarrow> int" where
  "js_rem a b = sgn a * (\<bar>a\<bar> mod \<bar>b\<bar>)"

subsection \<open>Strings\<close>

text \<open>
  A string is a list of code units; a \<^typ>\<open>char\<close> stands for a code unit below 256
  (Latin-1), which covers every character the patterns of the program mention.  The
  pictographs of the reply texts lie outside; they are carried as their UTF-8 bytes
  and no pattern looks at them.
\<close>

definition is_digit :: "char \<Rightarrow> bool" where
  "is_digit c = (CHR ''0'' \<le> c \<and> c \<le> CHR ''9'')"

text \<open>\<open>\s\<close>, and what \<open>trim\<close> strips: white space and line terminators.\<close>

definition is_space :: "char \<Rightarrow> bool" where
  "is_space c = (c \<in> set [CHR 0x09, CHR 0x0A, CHR 0x0B, CHR 0x0C, CHR 0x0D, CHR 0x20, CHR 0xA0])"

text \<open>\<open>\w\<close>: the characters between which \<open>\b\<close> sees no boundary.\<close>

definition is_word :: "char \<Rightarrow> bool" where
  "is_word c = ((CHR ''a'' \<le> c \<and> c \<le> CHR ''z'') \<or> (CHR ''A'' \<le> c \<and> c \<le> CHR ''Z'')
      \<or> is_digit c \<or> c = CHR ''_'')"

definition trim :: "string \<Rightarrow> string" where
  "trim s = rev (dropWhile is_space (rev (dropWhile is_space s)))"

definition lower_char :: "char \<Rightarrow> char" where
  "lower_char c =
     (let k = (of_char c :: nat)
      in if (65 \<le> k \<and> k \<le> 90) \<or> (192 \<le> k \<and> k \<le> 222 \<and> k \<noteq> 215)
         then char_of (k + 32) else c)"

definition toLowerCase :: "string \<Rightarrow> string" where
  "toLowerCase s = map lower_char s"

definition startsWith :: "string \<Rightarrow> string \<Rightarrow> bool" where
  "startsWith s p = (take (length p) s = p)"

fun str_includes :: "string \<Rightarrow> string \<Rightarrow> bool" where
  "str_includes [] p = (p = [])"
| "str_includes (c # cs) p = (startsWith (c # cs) p \<or> str_includes cs p)"

text \<open>\<open>s.replace(c, t)\<close> with a string pattern of one character: the first occurrence only.\<close>

fun replace_char :: "char \<Rightarrow> string \<Rightarrow> string \<Rightarrow> string" where
  "replace_char c t [] = []"
| "replace_char c t (x # xs) = (if x = c then t @ xs else x # replace_char c t xs)"

text \<open>\<open>s.split(c)\<close> and \<open>parts.join('')\<close>\<close>

fun split :: "char \<Rightarrow> string \<Rightarrow> string list" where
  "split c [] = [[]]"
| "split c (x # xs) =
     (case split c xs of
        p # ps \<Rightarrow> if x = c then [] # p # ps else (x # p) # ps
      | [] \<Rightarrow> [[x]])"

definition join :: "string list \<Rightarrow> string" where
  "join parts = concat parts"

text \<open>Decimal digits of a natural number, and a number's string form when it is an integer.\<close>

definition digit_char :: "nat \<Rightarrow> char" where
  "digit_char d = char_of (48 + d)"

fun digits :: "nat \<Rightarrow> string" where
  "digits n = (if n < 10 then [digit_char n] else digits (n div 10) @ [digit_char (n mod 10)])"

definition int_string :: "int \<Rightarrow> string" where
  "int_string i = (if i < 0 then CHR ''-'' # digits (nat (- i)) else digits (nat i))"

text \<open>\<open>s.padStart(2, '0')\<close>\<close>

definition padStart2 :: "string \<Rightarrow> string" where
  "padStart2 s = replicate (2 - length s) CHR ''0'' @ s"

text \<open>The value of a run of decimal digits.\<close>

definition digit_val :: "char \<Rightarrow> nat" where
  "digit_val c = of_char c - 48"

definition digits_val :: "string \<Rightarrow> nat" where
  "digits_val ds = foldl (\<lambda>a c. 10 * a + digit_val c) 0 ds"

text \<open>
  \<open>x.toFixed(2)\<close>: the nearest multiple of 0.01, the larger one on a tie, written with
  two decimals; this is what JavaScript writes for a double \<open>x\<close> below \<open>10^21\<close>.  From
  \<open>10^21\<close> on JavaScript switches to exponent notation, which depends on the binary
  representation; the model keeps positional digits throughout.
\<close>

definition fixed2 :: "rat \<Rightarrow> string" where
  "fixed2 x =
     (let n = nat \<lfloor>x * 100 + 1 / 2\<rfloor>
      in digits (n div 100) @ ''.'' @ padStart2 (digits (n mod 100)))"

fun toFixed2 :: "number \<Rightarrow> string" where
  "toFixed2 NaN = ''NaN''"
| "toFixed2 PosInf = ''Infinity''"
| "toFixed2 NegInf = ''-Infinity''"
| "toFixed2 (Fin x) = (if x < 0 then CHR ''-'' # fixed2 (- x) else fixed2 x)"

text \<open>
  \<open>parseFloat\<close>: skips leading white space, reads an optional sign and the longest
  prefix that is a decimal literal (or \<open>Infinity\<close>), and yields NaN when there is none.
  The result is the exact value of the literal, where JavaScript yields the double
  nearest to it (an infinity or zero beyond the range of doubles).
\<close>

definition exponent :: "string \<Rightarrow> int" where
  "exponent s =
     (case s of
        [] \<Rightarrow> 0
      | e # r \<Rightarrow>
          if e = CHR ''e'' \<or> e = CHR ''E'' then
            (let neg = (take 1 r = ''-'');
                 ds = takeWhile is_digit (if take 1 r = ''-'' \<or> take 1 r = ''+'' then drop 1 r else r)
             in if ds = [] then 0 else if neg then - int (digits_val ds) else int (digits_val ds))
          else 0)"

definition parseFloat :: "string \<Rightarrow> number" where
  "parseFloat input =
     (let s = dropWhile is_space input;
          neg = (take 1 s = ''-'');
          t = (if take 1 s = ''-'' \<or> take 1 s = ''+'' then drop 1 s else s)
      in if startsWith t ''Infinity'' then (if neg then NegInf else PosInf)
         else
           (let ip = takeWhile is_digit t;
                r1 = dropWhile is_digit t;
                fp = (if take 1 r1 = ''.'' then takeWhile is_digit (drop 1 r1) else []);
                r2 = (if take 1 r1 = ''.'' then dropWhile is_digit (drop 1 r1) else r1)
            in if ip = [] \<and> fp = [] then NaN
               else
                 (let e = exponent r2;
                      m = of_nat (digits_val (ip @ fp)) / 10 ^ length fp;
                      v = (if 0 \<le> e then m * 10 ^ nat e else m / 10 ^ nat (- e))
                  in Fin (if neg then - v else v))))"

subsection \<open>Regular expressions\<close>

text \<open>
  The patterns of the program are written in a small regular-expression type and run
  by a backtracking matcher that lists the ways a pattern can match at a position in
  the order JavaScript tries them; the first one is the match.  A quantifier is
  greedy.  An iteration of a quantified pattern has to consume input: none of the
  program's quantified patterns can match the empty string.
\<close>

datatype rx =
    Eps
  | Lit char
  | Cls "char \<Rightarrow> bool"
  | Seq rx rx
  | Alt rx rx
  | Rep nat "nat option" rx
  | Grp nat rx
  | Bol
  | Eol
  | Wb

text \<open>
  A position in the subject: the character before it (none at the start), the input
  left, and the groups captured so far.
\<close>

type_synonym mstate = "char option \<times> string \<times> (nat \<times> string) list"

definition left :: "mstate \<Rightarrow> string" where
  "left st = fst (snd st)"

function rep :: "(mstate \<Rightarrow> mstate list) \<Rightarrow> nat \<Rightarrow> nat option \<Rightarrow> mstate \<Rightarrow> mstate list" where
  "rep f lo hi st =
     (if hi = Some 0 then [st]
      else concat (map (rep f (lo - 1) (map_option (\<lambda>h. h - 1) hi))
                       (filter (\<lambda>st'. length (left st') < length (left st)) (f st)))
           @ (if lo = 0 then [st] else []))"
  by pat_completeness auto
termination
  by (relation "measure (\<lambda>(f, lo, hi, st). length (left st))") auto

definition word_before :: "mstate \<Rightarrow> bool" where
  "word_before st = (case fst st of None \<Rightarrow> False | Some c \<Rightarrow> is_word c)"

definition word_after :: "mstate \<Rightarrow> bool" where
  "word_after st = (case left st of [] \<Rightarrow> False | c # _ \<Rightarrow> is_word c)"

primrec rx_run :: "rx \<Rightarrow> mstate \<Rightarrow> mstate list" where
  "rx_run Eps st = [st]"
| "rx_run (Lit c) st =
     (case left st of [] \<Rightarrow> [] | x # xs \<Rightarrow> if x = c then [(Some x, xs, snd (snd st))] else [])"
| "rx_run (Cls p) st =
     (case left st of [] \<Rightarrow> [] | x # xs \<Rightarrow> if p x then [(Some x, xs, snd (snd st))] else [])"
| "rx_run (Seq a b) st = concat (map (rx_run b) (rx_run a st))"
| "rx_run (Alt a b) st = rx_run a st @ rx_run b st"
| "rx_run (Rep lo hi a) st = rep (rx_run a) lo hi st"
| "rx_run (Grp k a) st =
     map (\<lambda>st'. (fst st', left st',
                  (k, take (length (left st) - length (left st')) (left st)) # snd (snd st')))
         (rx_run a st)"
| "rx_run Bol st = (if fst st = None then [st] else [])"
| "rx_run Eol st = (if left st = [] then [st] else [])"
| "rx_run Wb st = (if word_before st \<noteq> word_after st then [st] else [])"

text \<open>A literal string as a pattern, matched exactly or (flag \<open>i\<close>) ignoring case.\<close>

definition str :: "string \<Rightarrow> rx" where
  "str s = foldr (\<lambda>c r. Seq (Lit c) r) s Eps"

definition str_i :: "string \<Rightarrow> rx" where
  "str_i s = foldr (\<lambda>c r. Seq (Cls (\<lambda>x. lower_char x = lower_char c)) r) s Eps"

fun alts :: "rx list \<Rightarrow> rx" where
  "alts [] = Cls (\<lambda>c. False)"
| "alts [r] = r"
| "alts (r # rs) = Alt r (alts rs)"

text \<open>
  The leftmost match of a pattern in a string: the text before it and the matcher's
  state after it.  The pattern is tried at each position from the left.
\<close>

fun rx_find :: "rx \<Rightarrow> char option \<Rightarrow> string \<Rightarrow> (string \<times> mstate) option" where
  "rx_find r prev [] =
     (case rx_run r (prev, [], []) of st # _ \<Rightarrow> Some ([], st) | [] \<Rightarrow> None)"
| "rx_find r prev (c # cs) =
     (case rx_run r (prev, c # cs, []) of
        st # _ \<Rightarrow> Some ([], st)
      | [] \<Rightarrow> (case rx_find r (Some c) cs of
                 Some (pre, st) \<Rightarrow> Some (c # pre, st)
               | None \<Rightarrow> None))"

text \<open>\<open>pattern.test(s)\<close>, and \<open>s.match(pattern)\<close> being non-null\<close>

definition rx_test :: "rx \<Rightarrow> string \<Rightarrow> bool" where
  "rx_test r s = (rx_find r None s \<noteq> None)"

text \<open>
  \<open>s.match(pattern)\<close>: the matched text and the groups captured, each with its number,
  the latest first.
\<close>

definition rx_match :: "rx \<Rightarrow> string \<Rightarrow> (string \<times> (nat \<times> string) list) option" where
  "rx_match r s =
     (case rx_find r None s of
        None \<Rightarrow> None
      | Some (pre, st) \<Rightarrow>
          Some (take (length s - length pre - length (left st)) (drop (length pre) s),
                snd (snd st)))"

text \<open>\<open>s.replace(pattern, t)\<close> without the flag \<open>g\<close>: the leftmost match only.\<close>

definition rx_replace :: "rx \<Rightarrow> string \<Rightarrow> string \<Rightarrow> string" where
  "rx_replace r t s =
     (case rx_find r None s of None \<Rightarrow> s | Some (pre, st) \<Rightarrow> pre @ t @ left st)"

text \<open>
  \<open>s.replace(pattern, t)\<close> with the flag \<open>g\<close>: every match, left to right, each search
  starting where the previous match ended (one character further after an empty match).
\<close>

function rx_replace_from :: "rx \<Rightarrow> string \<Rightarrow> char option \<Rightarrow> string \<Rightarrow> string" where
  "rx_replace_from r t prev [] = (if rx_run r (prev, [], []) = [] then [] else t)"
| "rx_replace_from r t prev (c # cs) =
     (case rx_run r (prev, c # cs, []) of
        [] \<Rightarrow> c # rx_replace_from r t (Some c) cs
      | st # _ \<Rightarrow>
          if length (left st) < Suc (length cs) then t @ rx_replace_from r t (fst st) (left st)
          else t @ c # rx_replace_from r t (Some c) cs)"
  by pat_completeness auto
termination
  by (relation "measure (\<lambda>(r, t, prev, s). length s)") auto

definition rx_replace_all :: "rx \<Rightarrow> string \<Rightarrow> string \<Rightarrow> string" where
  "rx_replace_all r t s = rx_replace_from r t None s"

subsection \<open>Dates\<close>

text \<open>
  A \<open>Date\<close> is modelled by the calendar day it shows in local time: the values of
  \<open>getFullYear()\<close>, \<open>getMonth()\<close> (January is 0) and \<open>getDate()\<close>.  The time of day
  plays no part in the ledger.
\<close>

record jsdate =
  getFullYear :: int
  getMonth :: int
  getDate :: int

definition leap :: "int \<Rightarrow> bool" where
  "leap y = (y mod 4 = 0 \<and> (y mod 100 \<noteq> 0 \<or> y mod 400 = 0))"

text \<open>The length of a month of the calendar, the month counted from 0.\<close>

definition monthLength :: "int \<Rightarrow> int \<Rightarrow> int" where
  "monthLength y m =
     (if m = 1 then (if leap y then 29 else 28)
      else if m \<in> set [3, 5, 8, 10] then 30 else 31)"

definition nextDay :: "jsdate \<Rightarrow> jsdate" where
  "nextDay d =
     (if getDate d < monthLength (getFullYear d) (getMonth d) then d\<lparr>getDate := getDate d + 1\<rparr>
      else if getMonth d < 11 then d\<lparr>getMonth := getMonth d + 1, getDate := 1\<rparr>
      else \<lparr>getFullYear = getFullYear d + 1, getMonth = 0, getDate = 1\<rparr>)"

definition prevDay :: "jsdate \<Rightarrow> jsdate" where
  "prevDay d =
     (if 1 < getDate d then d\<lparr>getDate := getDate d - 1\<rparr>
      else if 0 < getMonth d
        then d\<lparr>getMonth := getMonth d - 1,
               getDate := monthLength (getFullYear d) (getMonth d - 1)\<rparr>
      else \<lparr>getFullYear = getFullYear d - 1, getMonth = 11, getDate = 31\<rparr>)"

primrec forward :: "nat \<Rightarrow> jsdate \<Rightarrow> jsdate" where
  "forward 0 d = d"
| "forward (Suc n) d = forward n (nextDay d)"

primrec backward :: "nat \<Rightarrow> jsdate \<Rightarrow> jsdate" where
  "backward 0 d = d"
| "backward (Suc n) d = backward n (prevDay d)"

text \<open>The day \<open>k\<close> days after a date (before it, when \<open>k\<close> is negative).\<close>

definition shiftDays :: "int \<Rightarrow> jsdate \<Rightarrow> jsdate" where
  "shiftDays k d = (if 0 \<le> k then forward (nat k) d else backward (nat (- k)) d)"

text \<open>
  \<open>new Date(year, monthIndex, day)\<close>: a month index outside 0..11 carries into the
  year, and the day counts from the first of that month, so that a day past the end
  of the month (or before its first) rolls into the months after (or before).  Years
  0 to 99 stand for 1900 to 1999.
\<close>

definition newDate :: "int \<Rightarrow> int \<Rightarrow> int \<Rightarrow> jsdate" where
  "newDate y m d =
     (let yr = (if 0 \<le> y \<and> y \<le> 99 then 1900 + y else y)
      in shiftDays (d - 1) \<lparr>getFullYear = yr + m div 12, getMonth = m mod 12, getDate = 1\<rparr>)"

text \<open>\<open>date.setDate(d)\<close>, returning the date it leaves in \<open>date\<close>.\<close>

definition setDate :: "jsdate \<Rightarrow> int \<Rightarrow> jsdate" where
  "setDate dt d = shiftDays (d - 1) (dt\<lparr>getDate := 1\<rparr>)"

text \<open>A date of the calendar: the month exists and the day lies in it.\<close>

definition calendar_date :: "jsdate \<Rightarrow> bool" where
  "calendar_date d =
     (0 \<le> getMonth d \<and> getMonth d \<le> 11 \<and> 1 \<le> getDate d
      \<and> getDate d \<le> monthLength (getFullYear d) (getMonth d))"

section \<open>The ledger's layout (sheetUpdater.ts)\<close>

record SheetConfig =
  month :: int
  year :: int
  startRow :: int
  endRow :: int
  columnOffset :: int

text \<open>\<open>getSheetConfig(month, year)\<close>\<close>

definition getSheetConfig :: "int \<Rightarrow> int \<Rightarrow> SheetConfig" where
  "getSheetConfig mo yr =
     (let offset = (mo - 1) * 6;
          first = 6;
          isLeapYear = ((js_rem yr 4 = 0 \<and> js_rem yr 100 \<noteq> 0) \<or> js_rem yr 400 = 0);
          last = (if mo = 2 then (if isLeapYear then 34 else 33)
                  else if mo \<in> set [4, 6, 9, 11] then 35
                  else 36)
      in \<lparr>month = mo, year = yr, startRow = first, endRow = last, columnOffset = offset\<rparr>)"

text \<open>
  The number of days of a month, as \<open>updateValue\<close>, \<open>getMonthTotals\<close> and
  \<open>getForecastReport\<close> compute it from the layout: \<open>config.endRow - config.startRow + 1\<close>.
\<close>

definition lastValidDay :: "int \<Rightarrow> int \<Rightarrow> int" where
  "lastValidDay mo yr = endRow (getSheetConfig mo yr) - startRow (getSheetConfig mo yr) + 1"

text \<open>\<open>columnToLetter(column)\<close>: the loop, and the function that starts it.\<close>

function columnLoop :: "int \<Rightarrow> string \<Rightarrow> string" where
  "columnLoop column letter =
     (if column \<ge> 0
      then columnLoop (column div 26 - 1) (char_of (js_rem column 26 + 65) # letter)
      else letter)"
  by pat_completeness auto
termination
  by (relation "measure (\<lambda>(column, letter). nat (column + 1))") auto

definition columnToLetter :: "int \<Rightarrow> string" where
  "columnToLetter column = columnLoop column []"

text \<open>
  The kinds of message; \<open>Entrada\<close>, \<open>Saida\<close> and \<open>Diario\<close> are the three fields a
  request can update.
\<close>

datatype mtype =
  Entrada | Saida | Diario | Saldo | Resumo | Hoje | Semana | Mes
  | Performance | Comparar | Previsao | Ajuda

text \<open>
  \<open>getColumnLetter(type, columnOffset)\<close>.  The table \<open>baseColumns\<close> has the three
  fields only; for any other key the lookup is undefined, the sum is NaN and
  \<open>columnToLetter\<close> returns the empty string, its loop never entered.
\<close>

definition baseColumns :: "mtype \<Rightarrow> int option" where
  "baseColumns t = (case t of Entrada \<Rightarrow> Some 2 | Saida \<Rightarrow> Some 3 | Diario \<Rightarrow> Some 4 | _ \<Rightarrow> None)"

definition getColumnLetter :: "mtype \<Rightarrow> int \<Rightarrow> string" where
  "getColumnLetter t offset =
     (case baseColumns t of Some b \<Rightarrow> columnToLetter (b + offset) | None \<Rightarrow> [])"

text \<open>\<open>getRowNumber(day, config)\<close>\<close>

definition getRowNumber :: "int \<Rightarrow> SheetConfig \<Rightarrow> int" where
  "getRowNumber day config = startRow config + (day - 1)"

section \<open>The storage collaborator\<close>

text \<open>
  The spreadsheet service (\<open>googleSheets.ts\<close>) is not among the sources.  It is
  modelled by the state it answers from and the calls it has received.
\<close>

datatype call =
    ReadCell string
  | WriteCell string string
  | ReadRange string
  | BatchRead "string list"

text \<open>
  \<open>cells\<close>: the text of a cell by its coordinate, none for a blank cell.
  \<open>grid\<close>: the rows a range read answers with.
  \<open>refuses\<close>: the calls on which the service throws, with the error's message.
  \<open>calls\<close>: the calls received so far, oldest first.
\<close>

record sheets =
  cells :: "string \<Rightarrow> string option"
  grid :: "string \<Rightarrow> string list list"
  refuses :: "call \<Rightarrow> string option"
  calls :: "call list"

definition received :: "call \<Rightarrow> sheets \<Rightarrow> sheets" where
  "received c s = s\<lparr>calls := calls s @ [c]\<rparr>"

text \<open>
  Modelled from the spec: \<open>readCell(coord) -> text|empty\<close> of the storage
  collaborator, whose code is missing.
\<close>

definition readCell :: "string \<Rightarrow> sheets \<Rightarrow> (string + string option) \<times> sheets" where
  "readCell coord s =
     (case refuses s (ReadCell coord) of
        Some err \<Rightarrow> (Inl err, received (ReadCell coord) s)
      | None \<Rightarrow> (Inr (cells s coord), received (ReadCell coord) s))"

text \<open>
  Modelled from the spec: \<open>writeCell(coord, text) -> success|failure\<close> of the storage
  collaborator, whose code is missing.  A refused write leaves the cells as they are.
\<close>

definition writeCell :: "string \<Rightarrow> string \<Rightarrow> sheets \<Rightarrow> (string + unit) \<times> sheets" where
  "writeCell coord txt s =
     (case refuses s (WriteCell coord txt) of
        Some err \<Rightarrow> (Inl err, received (WriteCell coord txt) s)
      | None \<Rightarrow> (Inr (), received (WriteCell coord txt) (s\<lparr>cells := (cells s)(coord \<mapsto> txt)\<rparr>)))"

text \<open>
  Modelled from the spec: \<open>readRange(rangeSpec) -> grid of row-major text cells\<close> of
  the storage collaborator, whose code is missing.
\<close>

definition readRange :: "string \<Rightarrow> sheets \<Rightarrow> (string + string list list) \<times> sheets" where
  "readRange rng s =
     (case refuses s (ReadRange rng) of
        Some err \<Rightarrow> (Inl err, received (ReadRange rng) s)
      | None \<Rightarrow> (Inr (grid s rng), received (ReadRange rng) s))"

text \<open>
  Modelled from the spec: \<open>batchRead(coords: list) -> map coord->text\<close> of the storage
  collaborator, whose code is missing; coordinates not present in the backing store
  map to empty text.
\<close>

definition batchRead :: "string list \<Rightarrow> sheets \<Rightarrow> (string + (string \<rightharpoonup> string)) \<times> sheets" where
  "batchRead ranges s =
     (case refuses s (BatchRead ranges) of
        Some err \<Rightarrow> (Inl err, received (BatchRead ranges) s)
      | None \<Rightarrow>
          (Inr (\<lambda>r. if r \<in> set ranges then Some (case cells s r of None \<Rightarrow> [] | Some t \<Rightarrow> t)
                     else None),
           received (BatchRead ranges) s))"

section \<open>Reading and formatting amounts (sheetUpdater.ts)\<close>

text \<open>\<open>/R\$\s*/\<close>, \<open>/\./\<close> and \<open>/,/\<close>\<close>

definition rx_currency :: rx where
  "rx_currency = Seq (Lit CHR ''R'') (Seq (Lit CHR ''$'') (Rep 0 None (Cls is_space)))"

definition rx_dot :: rx where
  "rx_dot = Lit CHR ''.''"

definition rx_comma :: rx where
  "rx_comma = Lit CHR '',''"

text \<open>\<open>parseValue(cellValue)\<close>\<close>

definition parseValue :: "string option \<Rightarrow> number" where
  "parseValue cellValue =
     (case cellValue of
        None \<Rightarrow> Fin 0
      | Some v \<Rightarrow>
          if v = [] \<or> trim v = [] then Fin 0
          else
            (let cleaned =
                   trim (rx_replace_all rx_comma ''.''
                          (rx_replace_all rx_dot [] (rx_replace_all rx_currency [] v)));
                 parsed = parseFloat cleaned
             in if isNaN parsed then Fin 0 else parsed))"

text \<open>\<open>x || null\<close> on a cell text that may be missing: the empty text counts as missing.\<close>

definition or_null :: "string option \<Rightarrow> string option" where
  "or_null v = (case v of Some [] \<Rightarrow> None | _ \<Rightarrow> v)"

text \<open>
  The expression \<open>`R$ ${x.toFixed(2).replace('.', ',')}`\<close>, by which \<open>updateValue\<close>
  formats the amount it writes and the amount it reports.
\<close>

definition formatValue :: "number \<Rightarrow> string" where
  "formatValue x = ''R$ '' @ replace_char CHR ''.'' '','' (toFixed2 x)"

text \<open>
  \<open>formatCurrency(value)\<close>.  It is \<open>value.toLocaleString('pt-BR', {style: 'currency',
  currency: 'BRL'})\<close>, which the runtime's locale data defines: the symbol \<open>R$\<close>, a
  no-break space, the integer digits in groups of three separated by points, a comma and
  two decimals, rounded to the nearest with ties away from zero; a minus sign comes
  first.  The infinity sign (U+221E) is carried as its UTF-8 bytes.
\<close>

function group3 :: "string \<Rightarrow> string" where
  "group3 ds =
     (if length ds \<le> 3 then ds
      else group3 (take (length ds - 3) ds) @ ''.'' @ drop (length ds - 3) ds)"
  by pat_completeness auto
termination
  by (relation "measure length") auto

definition currency2 :: "rat \<Rightarrow> string" where
  "currency2 x =
     (let n = nat \<lfloor>x * 100 + 1 / 2\<rfloor>
      in ''R$'' @ [CHR 0xA0] @ group3 (digits (n div 100)) @ '','' @ padStart2 (digits (n mod 100)))"

fun formatCurrency :: "number \<Rightarrow> string" where
  "formatCurrency NaN = ''R$'' @ [CHR 0xA0] @ ''NaN''"
| "formatCurrency PosInf = ''R$'' @ [CHR 0xA0] @ [CHR 0xE2, CHR 0x88, CHR 0x9E]"
| "formatCurrency NegInf = ''-R$'' @ [CHR 0xA0] @ [CHR 0xE2, CHR 0x88, CHR 0x9E]"
| "formatCurrency (Fin x) = (if x < 0 then CHR ''-'' # currency2 (- x) else currency2 x)"

section \<open>Dates of messages (dateHelper.ts)\<close>

text \<open>\<open>DateHelper.formatDate(date)\<close>\<close>

definition formatDate :: "jsdate \<Rightarrow> string" where
  "formatDate d =
     padStart2 (int_string (getDate d)) @ ''/'' @ padStart2 (int_string (getMonth d + 1))
       @ ''/'' @ int_string (getFullYear d)"

section \<open>Updating a cell (sheetUpdater.ts)\<close>

text \<open>
  The request of an update.  The interface declares \<open>value\<close> a number, but
  \<open>handleMessage\<close> passes \<open>parsed.value!\<close>, which is undefined for a message
  without an amount: \<open>None\<close> stands for undefined.
\<close>

record UpdateRequest =
  req_type :: mtype
  req_value :: "number option"
  req_day :: int
  req_month :: int
  req_year :: int
  req_shouldReplace :: "bool option"

record ResponseDetails =
  d_type :: "string option"
  d_value :: string
  d_date :: string
  d_column :: string

record BotResponse =
  success :: bool
  message :: string
  details :: "ResponseDetails option"

text \<open>The check mark and the cross of the reply texts (U+2705, U+274C), as UTF-8.\<close>

definition check_mark :: string where
  "check_mark = [CHR 0xE2, CHR 0x9C, CHR 0x85]"

definition cross_mark :: string where
  "cross_mark = [CHR 0xE2, CHR 0x9D, CHR 0x8C]"

definition failure :: "string \<Rightarrow> BotResponse" where
  "failure msg = \<lparr>success = False, message = msg, details = None\<rparr>"

text \<open>The table \<open>typeLabel\<close> of \<open>updateValue\<close>, and a label put into a template string.\<close>

definition typeLabel :: "mtype \<Rightarrow> string option" where
  "typeLabel t =
     (case t of
        Entrada \<Rightarrow> Some ''Entrada''
      | Saida \<Rightarrow> Some (''Sa'' @ [CHR 0xED] @ ''da'')
      | Diario \<Rightarrow> Some (''Di'' @ [CHR 0xE1] @ ''rio'')
      | _ \<Rightarrow> None)"

definition shown :: "string option \<Rightarrow> string" where
  "shown v = (case v of Some t \<Rightarrow> t | None \<Rightarrow> ''undefined'')"

text \<open>The reply of the \<open>catch\<close> clause of \<open>updateValue\<close>, for an error with this message.\<close>

definition save_error :: "string \<Rightarrow> BotResponse" where
  "save_error err = failure (cross_mark @ '' Erro ao salvar: '' @ err)"

text \<open>
  The message of the TypeError that \<open>x.toFixed(2)\<close> throws when \<open>x\<close> is undefined, as
  the runtime (Node.js) words it.
\<close>

definition toFixed_of_undefined :: string where
  "toFixed_of_undefined =
     ''Cannot read properties of undefined (reading '' @ [CHR 0x27] @ ''toFixed'' @ [CHR 0x27] @ '')''"

text \<open>\<open>currentValue + value\<close>: an undefined value makes the sum NaN.\<close>

definition plus_value :: "number \<Rightarrow> number option \<Rightarrow> number" where
  "plus_value currentValue v = (case v of Some x \<Rightarrow> js_add currentValue x | None \<Rightarrow> NaN)"

text \<open>
  The last steps of \<open>updateValue\<close>: format \<open>finalValue\<close>, write it to the cell and
  build the reply.  Both \<open>finalValue.toFixed(2)\<close>, before the write, and
  \<open>value.toFixed(2)\<close>, after it, throw on undefined; the \<open>catch\<close> clause answers.
\<close>

definition storeValue :: "UpdateRequest \<Rightarrow> bool \<Rightarrow> string \<Rightarrow> number option \<Rightarrow> sheets \<Rightarrow> BotResponse \<times> sheets" where
  "storeValue request replace cellRange finalValue s =
     (case finalValue of
        None \<Rightarrow> (save_error toFixed_of_undefined, s)
      | Some final \<Rightarrow>
          (let formattedValue = formatValue final
           in case writeCell cellRange formattedValue s of
                (Inl err, s') \<Rightarrow> (save_error err, s')
              | (Inr _, s') \<Rightarrow>
                  (let dateStr = formatDate (newDate (req_year request) (req_month request - 1)
                                               (req_day request));
                       label = typeLabel (req_type request);
                       action = (if replace then ''substitu'' @ [CHR 0xED] @ ''do para''
                                 else ''adicionado'')
                   in case req_value request of
                        None \<Rightarrow> (save_error toFixed_of_undefined, s')
                      | Some v \<Rightarrow>
                          (let valueFormatted = formatValue v
                           in (\<lparr>success = True,
                                message =
                                  (if replace
                                   then check_mark @ '' '' @ shown label @ '' '' @ action @ '' ''
                                          @ formattedValue @ '' em '' @ dateStr
                                   else check_mark @ '' '' @ shown label @ '' de '' @ valueFormatted
                                          @ '' '' @ action @ '' em '' @ dateStr @ '' (Total: ''
                                          @ formattedValue @ '')''),
                                details = Some \<lparr>d_type = label, d_value = formattedValue,
                                                 d_date = dateStr, d_column = cellRange\<rparr>\<rparr>,
                               s')))))"

text \<open>\<open>updateValue(request)\<close>: the reply and the storage after it.\<close>

definition updateValue :: "UpdateRequest \<Rightarrow> sheets \<Rightarrow> BotResponse \<times> sheets" where
  "updateValue request s =
     (let day = req_day request;
          replace = (case req_shouldReplace request of Some b \<Rightarrow> b | None \<Rightarrow> False)
      in if day < 1 \<or> day > 31
         then (failure (''Dia inv'' @ [CHR 0xE1] @ ''lido: '' @ int_string day), s)
         else
           (let config = getSheetConfig (req_month request) (req_year request);
                maxDay = endRow config - startRow config + 1
            in if day > maxDay
               then (failure (''O m'' @ [CHR 0xEA] @ ''s '' @ int_string (req_month request) @ ''/''
                                @ int_string (req_year request) @ '' s'' @ [CHR 0xF3] @ '' tem ''
                                @ int_string maxDay @ '' dias''), s)
               else
                 (let columnLetter = getColumnLetter (req_type request) (columnOffset config);
                      rowNumber = getRowNumber day config;
                      cellRange = columnLetter @ int_string rowNumber
                  in if \<not> replace
                     then (case readCell cellRange s of
                             (Inl err, s') \<Rightarrow> (save_error err, s')
                           | (Inr currentCellValue, s') \<Rightarrow>
                               storeValue request replace cellRange
                                 (Some (plus_value (parseValue currentCellValue)
                                          (req_value request))) s')
                     else storeValue request replace cellRange (req_value request) s)))"

section \<open>Reports (sheetUpdater.ts)\<close>

text \<open>
  The reports return a text built from a template.  The model returns the values the
  template interpolates, before they are formatted, and leaves the fixed text of the
  template out; a fixed reply in place of a report is kept as text.
\<close>

record DayData =
  dd_day :: int
  dd_month :: int
  dd_year :: int
  entrada :: number
  saida :: number
  diario :: number
  saldo :: number

text \<open>\<open>row[i]\<close>, undefined past the end of the row.\<close>

definition cell_at :: "string list \<Rightarrow> nat \<Rightarrow> string option" where
  "cell_at row i = (if i < length row then Some (row ! i) else None)"

text \<open>The range \<open>getDayData\<close> reads for a day.\<close>

definition dayRange :: "int \<Rightarrow> int \<Rightarrow> int \<Rightarrow> string" where
  "dayRange day mo yr =
     (let config = getSheetConfig mo yr;
          rowNumber = getRowNumber day config;
          entradaCol = getColumnLetter Entrada (columnOffset config);
          saldoCol = columnToLetter (6 + columnOffset config)
      in entradaCol @ int_string rowNumber @ '':'' @ saldoCol @ int_string rowNumber)"

text \<open>\<open>getDayData(day, month, year)\<close>; the result is null when the read throws.\<close>

definition getDayData :: "int \<Rightarrow> int \<Rightarrow> int \<Rightarrow> sheets \<Rightarrow> DayData option \<times> sheets" where
  "getDayData day mo yr s =
     (case readRange (dayRange day mo yr) s of
        (Inl err, s') \<Rightarrow> (None, s')
      | (Inr values, s') \<Rightarrow>
          (case values of
             [] \<Rightarrow>
               (Some \<lparr>dd_day = day, dd_month = mo, dd_year = yr, entrada = Fin 0, saida = Fin 0,
                       diario = Fin 0, saldo = Fin 0\<rparr>, s')
           | row # _ \<Rightarrow>
               (Some \<lparr>dd_day = day, dd_month = mo, dd_year = yr,
                       entrada = parseValue (or_null (cell_at row 0)),
                       saida = parseValue (or_null (cell_at row 1)),
                       diario = parseValue (or_null (cell_at row 2)),
                       saldo = parseValue (or_null (cell_at row 3))\<rparr>, s')))"

text \<open>
  What the loop of \<open>getWeekReport\<close> carries: the days read and the three totals.
\<close>

record WeekTotals =
  days :: "DayData list"
  weekEntradas :: number
  weekSaidas :: number
  weekDiario :: number

text \<open>
  The loop \<open>for (let i = 6; i >= 0; i--)\<close> of \<open>getWeekReport\<close>, from a value of \<open>i\<close> on.
\<close>

function weekLoop :: "jsdate \<Rightarrow> int \<Rightarrow> WeekTotals \<Rightarrow> sheets \<Rightarrow> WeekTotals \<times> sheets" where
  "weekLoop today i acc s =
     (if i \<ge> 0 then
        (let date = setDate today (getDate today - i)
         in case getDayData (getDate date) (getMonth date + 1) (getFullYear date) s of
              (Some dayData, s') \<Rightarrow>
                weekLoop today (i - 1)
                  \<lparr>days = days acc @ [dayData],
                    weekEntradas = js_add (weekEntradas acc) (entrada dayData),
                    weekSaidas = js_add (weekSaidas acc) (saida dayData),
                    weekDiario = js_add (weekDiario acc) (diario dayData)\<rparr> s'
            | (None, s') \<Rightarrow> weekLoop today (i - 1) acc s')
      else (acc, s))"
  by pat_completeness auto
termination
  by (relation "measure (\<lambda>(today, i, acc, s). nat (i + 1))") auto

record WeekReport =
  totalEntradas_w :: number
  totalSaidas_w :: number
  totalDiario_w :: number
  saldoFinal :: number
  mediaDiaria_w :: number

text \<open>\<open>getWeekReport()\<close>, with the clock's day \<open>today\<close>.\<close>

definition getWeekReport :: "jsdate \<Rightarrow> sheets \<Rightarrow> WeekReport \<times> sheets" where
  "getWeekReport today s =
     (case weekLoop today 6
             \<lparr>days = [], weekEntradas = Fin 0, weekSaidas = Fin 0, weekDiario = Fin 0\<rparr> s of
        (w, s') \<Rightarrow>
          (\<lparr>totalEntradas_w = weekEntradas w,
            totalSaidas_w = weekSaidas w,
            totalDiario_w = weekDiario w,
            saldoFinal = (if length (days w) > 0 then saldo (last (days w)) else Fin 0),
            mediaDiaria_w =
              js_div (js_add (js_add (weekEntradas w) (weekSaidas w)) (weekDiario w)) (Fin 7)\<rparr>,
           s'))"

record MonthSummary =
  ms_month :: int
  ms_year :: int
  totalEntradas :: number
  totalSaidas :: number
  totalDiario :: number
  saidaTotal :: number
  performance :: number
  diasComDados :: nat
  mediaDiaria :: number

text \<open>
  The test of the \<open>forEach\<close> of \<open>getMonthTotals\<close>: a row of at least three cells with a
  positive entrada, saida or diario.
\<close>

definition hasData :: "string list \<Rightarrow> bool" where
  "hasData row =
     (length row \<ge> 3
      \<and> (js_pos (parseValue (or_null (cell_at row 0))) \<or> js_pos (parseValue (or_null (cell_at row 1)))
         \<or> js_pos (parseValue (or_null (cell_at row 2)))))"

text \<open>\<open>getMonthTotals(month, year)\<close>, with the clock's day \<open>today\<close>.\<close>

definition getMonthTotals :: "jsdate \<Rightarrow> int \<Rightarrow> int \<Rightarrow> sheets \<Rightarrow> MonthSummary option \<times> sheets" where
  "getMonthTotals today mo yr s =
     (let config = getSheetConfig mo yr;
          entradaCol = columnToLetter (2 + columnOffset config);
          saidaCol = columnToLetter (3 + columnOffset config);
          diarioCol = columnToLetter (4 + columnOffset config);
          saidaTotalCol = columnToLetter (1 + columnOffset config);
          performanceCol = columnToLetter (4 + columnOffset config);
          r0 = entradaCol @ ''40'';
          r1 = saidaCol @ ''40'';
          r2 = diarioCol @ ''40'';
          r3 = saidaTotalCol @ ''43'';
          r4 = performanceCol @ ''43''
      in case batchRead [r0, r1, r2, r3, r4] s of
           (Inl err, s') \<Rightarrow> (None, s')
         | (Inr results, s') \<Rightarrow>
             (let isCurrentMonth = (mo = getMonth today + 1 \<and> yr = getFullYear today);
                  maxDay = (if isCurrentMonth then getDate today
                            else endRow config - startRow config + 1);
                  firstRow = startRow config;
                  lastRow = startRow config + maxDay - 1;
                  startCol = getColumnLetter Entrada (columnOffset config);
                  endCol = columnToLetter (5 + columnOffset config);
                  daysRange = startCol @ int_string firstRow @ '':'' @ endCol @ int_string lastRow
              in case (case readRange daysRange s' of
                         (Inl err, s'') \<Rightarrow> (0, s'')
                       | (Inr daysData, s'') \<Rightarrow> (length (filter hasData daysData), s'')) of
                   (dias, s'') \<Rightarrow>
                     (let te = parseValue (or_null (results r0));
                          ts = parseValue (or_null (results r1));
                          td = parseValue (or_null (results r2));
                          totalSaidaTotal = parseValue (or_null (results r3));
                          performanceValue = parseValue (or_null (results r4));
                          media = (if dias > 0
                                   then js_div (js_add (js_add te ts) td) (Fin (of_nat dias))
                                   else Fin 0)
                      in (Some \<lparr>ms_month = mo, ms_year = yr,
                                 totalEntradas = te, totalSaidas = ts, totalDiario = td,
                                 saidaTotal = totalSaidaTotal,
                                 performance = performanceValue,
                                 diasComDados = dias,
                                 mediaDiaria = media\<rparr>, s''))))"

record Forecast =
  currentDay :: int
  daysInMonth :: int
  daysRemaining :: int
  mediaSaidas :: number
  mediaDiario :: number
  mediaSaidaTotal :: number
  forecastEntradas :: number
  projecaoSaidas :: number
  projecaoDiario :: number
  projecaoSaidaTotal :: number
  projecaoPerformance :: number

text \<open>The reply of \<open>getForecastReport\<close> when there is nothing to project from.\<close>

definition no_forecast :: string where
  "no_forecast =
     cross_mark @ '' N'' @ [CHR 0xE3] @ ''o h'' @ [CHR 0xE1]
       @ '' dados suficientes para fazer previs'' @ [CHR 0xE3] @ ''o.''"

text \<open>\<open>getForecastReport()\<close>, with the clock's day \<open>today\<close>.\<close>

definition getForecastReport :: "jsdate \<Rightarrow> sheets \<Rightarrow> (string + Forecast) \<times> sheets" where
  "getForecastReport today s =
     (let day = getDate today;
          mo = getMonth today + 1;
          yr = getFullYear today;
          config = getSheetConfig mo yr;
          inMonth = endRow config - startRow config + 1;
          remaining = inMonth - day
      in case getMonthTotals today mo yr s of
           (None, s') \<Rightarrow> (Inl no_forecast, s')
         | (Some summary, s') \<Rightarrow>
             if diasComDados summary = 0 then (Inl no_forecast, s')
             else
               (let n = Fin (of_nat (diasComDados summary));
                    mSaidas = js_div (totalSaidas summary) n;
                    mDiario = js_div (totalDiario summary) n;
                    mSaidaTotal = js_div (js_add (totalSaidas summary) (totalDiario summary)) n;
                    pSaidas = js_add (totalSaidas summary) (js_mul mSaidas (Fin (of_int remaining)));
                    pDiario = js_add (totalDiario summary) (js_mul mDiario (Fin (of_int remaining)));
                    pSaidaTotal =
                      js_add (saidaTotal summary) (js_mul mSaidaTotal (Fin (of_int remaining)));
                    pPerformance = js_sub (totalEntradas summary) pSaidaTotal
                in (Inr \<lparr>currentDay = day, daysInMonth = inMonth, daysRemaining = remaining,
                          mediaSaidas = mSaidas, mediaDiario = mDiario,
                          mediaSaidaTotal = mSaidaTotal,
                          forecastEntradas = totalEntradas summary,
                          projecaoSaidas = pSaidas, projecaoDiario = pDiario,
                          projecaoSaidaTotal = pSaidaTotal,
                          projecaoPerformance = pPerformance\<rparr>, s')))"

section \<open>Resolving dates (dateHelper.ts)\<close>

text \<open>Shorthands for writing the program's patterns.\<close>

definition seqs :: "rx list \<Rightarrow> rx" where
  "seqs rs = foldr Seq rs Eps"

definition digit :: rx where
  "digit = Cls is_digit"

definition space :: rx where
  "space = Cls is_space"

definition opt :: "rx \<Rightarrow> rx" where
  "opt r = Rep 0 (Some 1) r"

text \<open>The letters with a diacritic that the program's texts and patterns use.\<close>

definition a_tilde :: char where "a_tilde = CHR 0xE3"
definition c_cedilla :: char where "c_cedilla = CHR 0xE7"
definition e_circumflex :: char where "e_circumflex = CHR 0xEA"
definition i_acute :: char where "i_acute = CHR 0xED"
definition a_acute :: char where "a_acute = CHR 0xE1"

definition amanha_til :: string where
  "amanha_til = ''amanh'' @ [a_tilde]"

text \<open>
  \<open>parseInt\<close> on a run of decimal digits, which is all the program passes to it: the
  groups matched by \<open>\d{1,2}\<close> and \<open>\d{2,4}\<close>.
\<close>

definition parseInt :: "string \<Rightarrow> int" where
  "parseInt ds = int (digits_val ds)"

text \<open>A captured group, the empty text when it took no part in the match.\<close>

definition captured :: "(nat \<times> string) list \<Rightarrow> nat \<Rightarrow> string" where
  "captured g k = (case map_of g k of Some t \<Rightarrow> t | None \<Rightarrow> [])"

text \<open>\<open>/^(\d{1,2})\/(\d{1,2})(?:\/(\d{2,4}))?$/\<close>\<close>

definition rx_full_date :: rx where
  "rx_full_date =
     seqs [Bol, Grp 1 (Rep 1 (Some 2) digit), Lit CHR ''/'', Grp 2 (Rep 1 (Some 2) digit),
           opt (Seq (Lit CHR ''/'') (Grp 3 (Rep 2 (Some 4) digit))), Eol]"

text \<open>
  \<open>DateHelper.parseDate(dateText)\<close>, with \<open>now\<close> the day \<open>getBrasiliaTime()\<close> returns.
\<close>

definition parseDate :: "jsdate \<Rightarrow> string \<Rightarrow> jsdate" where
  "parseDate now dateText =
     (let normalized = trim (toLowerCase dateText)
      in if normalized = ''hoje'' then now
         else if normalized = ''ontem'' then setDate now (getDate now - 1)
         else if normalized = ''amanha'' \<or> normalized = amanha_til
           then setDate now (getDate now + 1)
         else
           (case rx_match rx_full_date normalized of
              Some (whole, g) \<Rightarrow>
                (let day = parseInt (captured g 1);
                     mo = parseInt (captured g 2);
                     y = (if captured g 3 \<noteq> [] then parseInt (captured g 3)
                          else getFullYear now);
                     yr = (if y < 100 then y + 2000 else y)
                 in newDate yr (mo - 1) day)
            | None \<Rightarrow> now))"

section \<open>Parsing messages (messageParser.ts)\<close>

text \<open>\<open>normalizeValue(value)\<close>\<close>

definition normalizeValue :: "string \<Rightarrow> number" where
  "normalizeValue v =
     (let normalized = replace_char CHR '','' ''.'' (trim v);
          parts = split CHR ''.'' normalized;
          normalized = (if length parts > 2
                        then join (butlast parts) @ ''.'' @ last parts
                        else normalized)
      in parseFloat normalized)"

text \<open>The patterns of \<open>detectType\<close>, in the order it tries them.\<close>

definition rx_sub :: rx where
  "rx_sub = seqs [Bol, str ''sub'', Rep 1 None space]"

definition rx_sub_i :: rx where
  "rx_sub_i = seqs [Bol, str_i ''sub'', Rep 1 None space]"

definition saldo_words :: rx where
  "saldo_words = Grp 1 (alts [str ''saldo'', str ''resumo'', str ''extrato''])"

definition rx_ajuda :: rx where
  "rx_ajuda = seqs [Bol, Grp 1 (alts [str ''ajuda'', str ''help'', Lit CHR ''?'']), Eol]"

definition rx_performance :: rx where
  "rx_performance = seqs [Bol, Grp 1 (alts [str ''performance'', str ''desempenho'']), Eol]"

definition rx_comparar :: rx where
  "rx_comparar =
     seqs [Bol, Grp 1 (alts [str ''comparar'', str ''comparacao'',
                             str (''compara'' @ [c_cedilla, a_tilde] @ ''o'')]), Eol]"

definition rx_previsao :: rx where
  "rx_previsao =
     seqs [Bol, Grp 1 (alts [str ''previsao'', str (''previs'' @ [a_tilde] @ ''o''),
                             str ''projecao'', str (''proje'' @ [c_cedilla, a_tilde] @ ''o''),
                             str ''forecast'']), Eol]"

definition rx_saldo_date :: rx where
  "rx_saldo_date =
     seqs [Bol, saldo_words, Rep 1 None space, Rep 1 (Some 2) digit, Lit CHR ''/'',
           Rep 1 (Some 2) digit]"

definition rx_saldo_day :: rx where
  "rx_saldo_day =
     seqs [Bol, saldo_words, Rep 1 None space,
           Grp 2 (alts [str ''ontem'', str ''amanha'', str amanha_til]), Eol]"

definition rx_saldo_hoje :: rx where
  "rx_saldo_hoje =
     seqs [Bol, saldo_words, Rep 0 None space, opt (Grp 2 (alts [str ''hoje'', str ''hj''])), Eol]"

definition rx_hoje :: rx where
  "rx_hoje = seqs [Bol, Grp 1 (alts [str ''hoje'', str ''hj'']), Eol]"

definition rx_ontem :: rx where
  "rx_ontem = seqs [Bol, Grp 1 (str ''ontem''), Eol]"

definition rx_amanha :: rx where
  "rx_amanha = seqs [Bol, Grp 1 (alts [str ''amanha'', str amanha_til]), Eol]"

definition rx_semana :: rx where
  "rx_semana =
     seqs [Bol, opt saldo_words, Rep 0 None space,
           Grp 2 (alts [str ''semana'', str ''semanal'']), Eol]"

definition rx_mes :: rx where
  "rx_mes =
     seqs [Bol, opt saldo_words, Rep 0 None space,
           Grp 2 (alts [str ''mes'', str (''m'' @ [e_circumflex] @ ''s''), str ''mensal'']), Eol]"

text \<open>\<open>/^\d+([,.]\d{1,2})?\s*(hoje|amanha|amanh\~a|\d{1,2}\/\d{1,2})?$/\<close>\<close>

definition rx_only_number :: rx where
  "rx_only_number =
     seqs [Bol, Rep 1 None digit,
           opt (Grp 1 (Seq (Cls (\<lambda>c. c = CHR '','' \<or> c = CHR ''.'')) (Rep 1 (Some 2) digit))),
           Rep 0 None space,
           opt (Grp 2 (alts [str ''hoje'', str ''amanha'', str amanha_til,
                             seqs [Rep 1 (Some 2) digit, Lit CHR ''/'', Rep 1 (Some 2) digit]])),
           Eol]"

text \<open>\<open>detectType(text)\<close>; the result is null when no pattern applies.\<close>

definition detectType :: "string \<Rightarrow> mtype option" where
  "detectType txt =
     (let lower = toLowerCase txt;
          cleanText = rx_replace rx_sub [] lower
      in if rx_test rx_ajuda cleanText then Some Ajuda
         else if rx_test rx_performance cleanText then Some Performance
         else if rx_test rx_comparar cleanText then Some Comparar
         else if rx_test rx_previsao cleanText then Some Previsao
         else if rx_test rx_saldo_date cleanText then Some Saldo
         else if rx_test rx_saldo_day cleanText then Some Saldo
         else if rx_test rx_saldo_hoje cleanText then Some Hoje
         else if rx_test rx_hoje cleanText then Some Hoje
         else if rx_test rx_ontem cleanText then Some Saldo
         else if rx_test rx_amanha cleanText then Some Saldo
         else if rx_test rx_semana cleanText then Some Semana
         else if rx_test rx_mes cleanText then Some Mes
         else if str_includes cleanText ''entrada'' then Some Entrada
         else if str_includes cleanText ''saida''
                 \<or> str_includes cleanText (''sa'' @ [i_acute] @ ''da'') then Some Saida
         else if rx_test rx_only_number cleanText then Some Diario
         else None)"

text \<open>\<open>shouldReplace(text)\<close>\<close>

definition shouldReplace :: "string \<Rightarrow> bool" where
  "shouldReplace txt = startsWith (trim (toLowerCase txt)) ''sub ''"

text \<open>
  \<open>/\b(ontem|amanha|amanh\~a)\b/\<close> and \<open>/(\d{1,2}\/\d{1,2}(?:\/\d{2,4})?)/\<close>, the latter
  also in its form without the group, as \<open>extractValue\<close> has it.
\<close>

definition rx_day_word :: rx where
  "rx_day_word = seqs [Wb, Grp 1 (alts [str ''ontem'', str ''amanha'', str amanha_til]), Wb]"

definition rx_date :: rx where
  "rx_date =
     seqs [Rep 1 (Some 2) digit, Lit CHR ''/'', Rep 1 (Some 2) digit,
           opt (Seq (Lit CHR ''/'') (Rep 2 (Some 4) digit))]"

definition rx_date_group :: rx where
  "rx_date_group = Grp 1 rx_date"

text \<open>\<open>extractTargetDate(text)\<close>\<close>

definition extractTargetDate :: "jsdate \<Rightarrow> string \<Rightarrow> jsdate option" where
  "extractTargetDate now txt =
     (case rx_match rx_day_word txt of
        Some (whole, g) \<Rightarrow> Some (parseDate now (captured g 1))
      | None \<Rightarrow>
          (case rx_match rx_date_group txt of
             Some (whole, g) \<Rightarrow> Some (parseDate now (captured g 1))
           | None \<Rightarrow> None))"

text \<open>
  \<open>/entrada|saida|sa\'ida|diario|di\'ario|hoje|amanha|amanh\~a/gi\<close> and \<open>/[\d]+[,.]?[\d]*/\<close>
\<close>

definition rx_keywords :: rx where
  "rx_keywords =
     alts [str_i ''entrada'', str_i ''saida'', str_i (''sa'' @ [i_acute] @ ''da''),
           str_i ''diario'', str_i (''di'' @ [a_acute] @ ''rio''), str_i ''hoje'',
           str_i ''amanha'', str_i amanha_til]"

definition rx_number :: rx where
  "rx_number =
     seqs [Rep 1 None digit, opt (Cls (\<lambda>c. c = CHR '','' \<or> c = CHR ''.'')), Rep 0 None digit]"

text \<open>\<open>extractValue(text)\<close>; the result is null when the text holds no number.\<close>

definition extractValue :: "string \<Rightarrow> number option" where
  "extractValue txt =
     (let cleanText = trim (rx_replace_all rx_keywords [] (toLowerCase txt));
          cleanText = trim (rx_replace_all rx_date [] cleanText)
      in case rx_match rx_number cleanText of
           Some (whole, g) \<Rightarrow> Some (normalizeValue whole)
         | None \<Rightarrow> None)"

text \<open>\<open>extractDate(text)\<close>\<close>

definition extractDate :: "jsdate \<Rightarrow> string \<Rightarrow> jsdate" where
  "extractDate now txt =
     (let lower = toLowerCase txt
      in if str_includes lower ''hoje'' then parseDate now ''hoje''
         else if str_includes lower ''ontem'' then parseDate now ''ontem''
         else if str_includes lower ''amanha'' \<or> str_includes lower amanha_til
           then parseDate now ''amanha''
         else
           (case rx_match rx_date_group txt of
              Some (whole, g) \<Rightarrow> parseDate now (captured g 1)
            | None \<Rightarrow> now))"

record ParsedMessage =
  p_type :: mtype
  p_value :: "number option"
  p_date :: jsdate
  rawText :: string
  p_shouldReplace :: "bool option"
  targetDate :: "jsdate option"

text \<open>A parsed message that carries no amount, flag or target date: a query.\<close>

definition query :: "mtype \<Rightarrow> jsdate \<Rightarrow> string \<Rightarrow> ParsedMessage" where
  "query t now trimmed =
     \<lparr>p_type = t, p_value = None, p_date = now, rawText = trimmed, p_shouldReplace = None,
      targetDate = None\<rparr>"

text \<open>
  The end of \<open>parse\<close>, for the messages that update the ledger: the amount and the date.
\<close>

definition parseUpdate :: "jsdate \<Rightarrow> mtype \<Rightarrow> bool \<Rightarrow> string \<Rightarrow> string \<Rightarrow> ParsedMessage option" where
  "parseUpdate now t replace cleanMessage trimmed =
     (case extractValue cleanMessage of
        None \<Rightarrow> None
      | Some v \<Rightarrow>
          if isNaN v then None
          else Some \<lparr>p_type = t, p_value = Some v, p_date = extractDate now cleanMessage,
                     rawText = trimmed, p_shouldReplace = Some replace, targetDate = None\<rparr>)"

text \<open>
  \<open>MessageParser.parse(message)\<close>, with \<open>now\<close> the day \<open>getBrasiliaTime()\<close> returns; the
  result is null for a message that is not a command.
\<close>

definition parse :: "jsdate \<Rightarrow> string \<Rightarrow> ParsedMessage option" where
  "parse now msg =
     (let trimmed = trim msg
      in if trimmed = [] then None
         else
           (let replace = shouldReplace trimmed;
                cleanMessage = (if replace then rx_replace rx_sub_i [] trimmed else trimmed)
            in case detectType cleanMessage of
                 None \<Rightarrow> None
               | Some t \<Rightarrow>
                   if t = Ajuda then Some (query Ajuda now trimmed)
                   else if t \<in> set [Performance, Comparar, Previsao]
                     then Some (query t now trimmed)
                   else if t = Saldo \<and> extractTargetDate now cleanMessage \<noteq> None
                     then Some ((query Saldo now trimmed)
                                  \<lparr>targetDate := extractTargetDate now cleanMessage\<rparr>)
                   else if t \<in> set [Hoje, Semana, Mes] then Some (query t now trimmed)
                   else parseUpdate now t replace cleanMessage trimmed))"

section \<open>Dispatching a message (messageHandler.ts)\<close>

text \<open>
  What \<open>handleMessage\<close> does with a message: the reply it returns at once or the one
  operation of the ledger it calls, with its arguments.
\<close>

datatype action =
    HelpMessage
  | PerformanceReport
  | ComparisonReport
  | ForecastReport
  | DayReport jsdate
  | QueryCommand mtype
  | Update UpdateRequest

text \<open>
  The request \<open>handleMessage\<close> builds from a parsed message.  A message without an
  amount leaves \<open>value\<close> undefined.
\<close>

definition updateRequest :: "ParsedMessage \<Rightarrow> UpdateRequest" where
  "updateRequest parsed =
     \<lparr>req_type = p_type parsed,
      req_value = p_value parsed,
      req_day = getDate (p_date parsed),
      req_month = getMonth (p_date parsed) + 1,
      req_year = getFullYear (p_date parsed),
      req_shouldReplace =
        Some (case p_shouldReplace parsed of Some b \<Rightarrow> b | None \<Rightarrow> False)\<rparr>"

text \<open>\<open>handleMessage(message)\<close>, up to the call it makes.\<close>

definition handleMessage :: "jsdate \<Rightarrow> string \<Rightarrow> action" where
  "handleMessage now msg =
     (case parse now msg of
        None \<Rightarrow> HelpMessage
      | Some parsed \<Rightarrow>
          if p_type parsed = Performance then PerformanceReport
          else if p_type parsed = Comparar then ComparisonReport
          else if p_type parsed = Previsao then ForecastReport
          else if p_type parsed = Saldo \<and> targetDate parsed \<noteq> None
            then (case targetDate parsed of Some d \<Rightarrow> DayReport d | None \<Rightarrow> HelpMessage)
          else if p_type parsed \<in> set [Hoje, Semana, Mes] then QueryCommand (p_type parsed)
          else Update (updateRequest parsed))"

text \<open>
  The reply to a message that updates the ledger: the message of \<open>updateValue\<close>'s
  response.
\<close>

definition updateReply :: "UpdateRequest \<Rightarrow> sheets \<Rightarrow> string \<times> sheets" where
  "updateReply request s = (case updateValue request s of (response, s') \<Rightarrow> (message response, s'))"

section \<open>Sheets used as examples\<close>

text \<open>A service whose cells are all blank, that answers every range with no rows and refuses nothing.\<close>

definition blank_sheets :: sheets where
  "blank_sheets = \<lparr>cells = (\<lambda>c. None), grid = (\<lambda>r. []), refuses = (\<lambda>c. None), calls = []\<rparr>"

text \<open>A request as \<open>handleMessage\<close> builds it from a message with an amount.\<close>

definition request :: "mtype \<Rightarrow> number \<Rightarrow> int \<Rightarrow> int \<Rightarrow> int \<Rightarrow> bool \<Rightarrow> UpdateRequest" where
  "request t v d mo yr replace =
     \<lparr>req_type = t, req_value = Some v, req_day = d, req_month = mo, req_year = yr,
      req_shouldReplace = Some replace\<rparr>"

text \<open>
  A sheet whose totals row holds entradas 100, saidas 10 and diario 5, and whose cells
  for the month's saida total and performance are blank.
\<close>

definition totals_only :: sheets where
  "totals_only =
     \<lparr>cells = (\<lambda>c. if c = ''C40'' then Some ''R$ 100,00''
                    else if c = ''D40'' then Some ''R$ 10,00''
                    else if c = ''E40'' then Some ''R$ 5,00''
                    else None),
      grid = (\<lambda>r. []), refuses = (\<lambda>c. None), calls = []\<rparr>"

text \<open>The second of January 2025.\<close>

definition jan2 :: jsdate where
  "jan2 = \<lparr>getFullYear = 2025, getMonth = 0, getDate = 2\<rparr>"

text \<open>
  A sheet with two days of January 2025 filled in: the first with an entrada of 100 and
  a saldo of 100, the second with a saida of 10, a diario of 5 and a saldo of 87,10.
  Every other range is blank.
\<close>

definition two_days :: sheets where
  "two_days =
     \<lparr>cells = (\<lambda>c. None),
      grid = (\<lambda>r. if r = ''C6:G6'' then [[''R$ 100,00'', [], [], ''R$ 100,00'']]
                   else if r = ''C7:G7'' then [[[], ''R$ 10,00'', ''R$ 5,00'', ''R$ 87,10'']]
                   else []),
      refuses = (\<lambda>c. None), calls = []\<rparr>"

text \<open>The same sheet, with a service that refuses the read of the second of January.\<close>

definition second_refused :: sheets where
  "second_refused =
     two_days\<lparr>refuses := (\<lambda>c. if c = ReadRange ''C7:G7'' then Some ''Quota exceeded'' else None)\<rparr>"

section \<open>Notions for stating the properties\<close>

text \<open>One or two digits: what \<open>\d{1,2}\<close> matches.\<close>

definition digits12 :: "string \<Rightarrow> bool" where
  "digits12 ds = (list_all is_digit ds \<and> (length ds = 1 \<or> length ds = 2))"

text \<open>
  The days of a week report, oldest first: from six days before \<open>today\<close> up to
  \<open>today\<close>.
\<close>

definition weekDays :: "jsdate \<Rightarrow> jsdate list" where
  "weekDays today = map (\<lambda>k. backward k today) [6, 5, 4, 3, 2, 1, 0]"

text \<open>
  The call \<open>getDayData\<close> issues for a date, and what it returns for it with the storage
  \<open>s\<close>: none when the read throws.
\<close>

definition dayCall :: "jsdate \<Rightarrow> call" where
  "dayCall d = ReadRange (dayRange (getDate d) (getMonth d + 1) (getFullYear d))"

definition dayRead :: "sheets \<Rightarrow> jsdate \<Rightarrow> DayData option" where
  "dayRead s d = fst (getDayData (getDate d) (getMonth d + 1) (getFullYear d) s)"

text \<open>The sum of a list of amounts, added from the left starting at 0.\<close>

definition sum_amounts :: "number list \<Rightarrow> number" where
  "sum_amounts xs = foldl js_add (Fin 0) xs"

text \<open>
  The two replies with which \<open>updateValue\<close> rejects the day of a request: the day is
  not between 1 and 31, or the month has fewer days.
\<close>

definition invalidDay :: "UpdateRequest \<Rightarrow> BotResponse" where
  "invalidDay r = failure (''Dia inv'' @ [CHR 0xE1] @ ''lido: '' @ int_string (req_day r))"

definition dayPastMonth :: "UpdateRequest \<Rightarrow> BotResponse" where
  "dayPastMonth r =
     failure (''O m'' @ [CHR 0xEA] @ ''s '' @ int_string (req_month r) @ ''/''
                @ int_string (req_year r) @ '' s'' @ [CHR 0xF3] @ '' tem ''
                @ int_string (lastValidDay (req_month r) (req_year r)) @ '' dias'')"

text \<open>
  The numbers of the program are IEEE 754 doubles: the rationals \<open>m * 2^e\<close> with
  \<open>|m| < 2^53\<close> and \<open>-1074 \<le> e \<le> 971\<close>.  An amount written in decimal is held as
  a double nearest to it.
\<close>

definition is_double :: "rat \<Rightarrow> bool" where
  "is_double q =
     (\<exists>(m::int) (a::nat) (b::nat). q = of_int m * 2 ^ a / 2 ^ b \<and> \<bar>m\<bar> < 2 ^ 53 \<and> a \<le> 971 \<and> b \<le> 1074)"

definition nearest_double :: "rat \<Rightarrow> rat \<Rightarrow> bool" where
  "nearest_double x d = (is_double d \<and> (\<forall>d'. is_double d' \<longrightarrow> \<bar>x - d\<bar> \<le> \<bar>x - d'\<bar>))"

section \<open>Properties\<close>

subsection \<open>Arithmetic of the model\<close>

lemma js_rem_eq_0_iff: "js_rem a b = 0 \<longleftrightarrow> b dvd a"
proof (cases "a = 0")
  case True
  then show ?thesis by (simp add: js_rem_def)
next
  case False
  have "\<bar>a\<bar> mod \<bar>b\<bar> = 0 \<longleftrightarrow> \<bar>b\<bar> dvd \<bar>a\<bar>"
    by (simp add: dvd_eq_mod_eq_0)
  with False show ?thesis
    by (simp add: js_rem_def sgn_if)
qed

subsection \<open>The length of a month\<close>

text \<open>
  C4.  For every year the number of days the layout gives a month, \<open>endRow - startRow + 1\<close>
  of \<open>getSheetConfig\<close>, is 31 for the months 1, 3, 5, 7, 8, 10 and 12, 30 for the
  months 4, 6, 9 and 11, and for month 2 it is 29 when the year is divisible by 4 and
  not by 100, or divisible by 400, and 28 otherwise.  In particular February has 29
  days in 2024 and 28 in 2023, April has 30 and January 31 in every year.
\<close>

theorem layout_month_length:
  fixes mo yr :: int
  defines "len \<equiv> \<lambda>m y. endRow (getSheetConfig m y) - startRow (getSheetConfig m y) + 1"
  shows "(mo \<in> {1, 3, 5, 7, 8, 10, 12} \<longrightarrow> len mo yr = 31)
       \<and> (mo \<in> {4, 6, 9, 11} \<longrightarrow> len mo yr = 30)
       \<and> len 2 yr = (if (4 dvd yr \<and> \<not> 100 dvd yr) \<or> 400 dvd yr then 29 else 28)
       \<and> len 2 2024 = 29 \<and> len 2 2023 = 28 \<and> len 4 yr = 30 \<and> len 1 yr = 31"
  unfolding len_def by (auto simp: getSheetConfig_def js_rem_eq_0_iff)

theorem layout_month_length_witness:
  "endRow (getSheetConfig 7 2025) - startRow (getSheetConfig 7 2025) + 1 = 31
   \<and> endRow (getSheetConfig 9 2025) - startRow (getSheetConfig 9 2025) + 1 = 30
   \<and> endRow (getSheetConfig 2 1900) - startRow (getSheetConfig 2 1900) + 1 = 28
   \<and> endRow (getSheetConfig 2 2000) - startRow (getSheetConfig 2 2000) + 1 = 29"
  using layout_month_length [of 7 2025] layout_month_length [of 9 2025]
    layout_month_length [of 0 1900] layout_month_length [of 0 2000]
  by simp

subsection \<open>Digits\<close>

lemma rat_floor_numeral [simp]:
  "\<lfloor>(numeral a / numeral b :: rat)\<rfloor> = numeral a div numeral b"
  using floor_divide_of_int_eq [of "numeral a" "numeral b", where ?'a = rat] by simp

lemma rat_floor_one_over [simp]:
  "\<lfloor>(1 / numeral b :: rat)\<rfloor> = 1 div numeral b"
  using floor_divide_of_int_eq [of 1 "numeral b", where ?'a = rat] by simp

lemma of_char_digit_char: "d < 10 \<Longrightarrow> (of_char (digit_char d) :: nat) = 48 + d"
  by (simp add: digit_char_def)

lemma is_digit_iff: "is_digit c \<longleftrightarrow> 48 \<le> (of_char c :: nat) \<and> (of_char c :: nat) \<le> 57"
  by (simp add: is_digit_def less_eq_char_def)

lemma is_digit_digit_char: "d < 10 \<Longrightarrow> is_digit (digit_char d)"
  by (simp add: is_digit_iff of_char_digit_char)

lemma digit_val_digit_char: "d < 10 \<Longrightarrow> digit_val (digit_char d) = d"
  by (simp add: digit_val_def of_char_digit_char)

lemma digit_not_space: "is_digit c \<Longrightarrow> \<not> is_space c"
  by (auto simp: is_digit_iff is_space_def)

lemma digit_neq:
  assumes "is_digit c"
  shows "c \<noteq> CHR ''.''" "c \<noteq> CHR '',''" "c \<noteq> CHR ''-''" "c \<noteq> CHR ''+''" "c \<noteq> CHR ''I''"
    "c \<noteq> CHR ''R''" "c \<noteq> CHR ''$''" "c \<noteq> CHR ''e''" "c \<noteq> CHR ''E''"
  using assms by (auto simp: is_digit_iff)

declare digits.simps [simp del]

lemma digits_not_Nil: "digits n \<noteq> []"
  by (subst digits.simps) simp

lemma digits_all: "list_all is_digit (digits n)"
proof (induction n rule: digits.induct)
  case (1 n)
  show ?case
  proof (cases "n < 10")
    case True
    then show ?thesis by (subst digits.simps) (simp add: is_digit_digit_char)
  next
    case False
    with 1 show ?thesis by (subst digits.simps) (simp add: is_digit_digit_char)
  qed
qed

lemma digits_val_snoc: "digits_val (ds @ [c]) = 10 * digits_val ds + digit_val c"
  by (simp add: digits_val_def)

lemma digits_val_digits: "digits_val (digits n) = n"
proof (induction n rule: digits.induct)
  case (1 n)
  show ?case
  proof (cases "n < 10")
    case True
    then show ?thesis by (subst digits.simps) (simp add: digits_val_def digit_val_digit_char)
  next
    case False
    with 1 show ?thesis
      by (subst digits.simps) (simp add: digits_val_snoc digit_val_digit_char)
  qed
qed

lemma digits_val_append:
  "digits_val (a @ b) = digits_val a * 10 ^ length b + digits_val b"
proof (induction b rule: rev_induct)
  case Nil
  then show ?case by (simp add: digits_val_def)
next
  case (snoc c b)
  have "digits_val (a @ b @ [c]) = 10 * digits_val (a @ b) + digit_val c"
    using digits_val_snoc [of "a @ b" c] by simp
  with snoc show ?case by (simp add: digits_val_snoc algebra_simps)
qed

lemma digit_char_simps:
  "digit_char 0 = CHR ''0''" "digit_char 1 = CHR ''1''" "digit_char 2 = CHR ''2''"
  "digit_char 3 = CHR ''3''" "digit_char 4 = CHR ''4''" "digit_char 5 = CHR ''5''"
  "digit_char 6 = CHR ''6''" "digit_char 7 = CHR ''7''" "digit_char 8 = CHR ''8''"
  "digit_char 9 = CHR ''9''"
  by code_simp+

text \<open>The two decimals.\<close>

lemma cents_string:
  assumes "r < 100"
  shows "padStart2 (digits r) = [digit_char (r div 10), digit_char (r mod 10)]"
proof (cases "r < 10")
  case True
  then show ?thesis
    by (subst digits.simps) (simp add: padStart2_def digit_char_simps)
next
  case False
  with assms have "r div 10 < 10" by simp
  with False show ?thesis
    by (subst digits.simps, subst digits.simps) (simp add: padStart2_def)
qed

lemma cents_all: "r < 100 \<Longrightarrow> list_all is_digit (padStart2 (digits r))"
  by (simp add: cents_string is_digit_digit_char)

lemma cents_val: "r < 100 \<Longrightarrow> digits_val (padStart2 (digits r)) = r"
  by (simp add: cents_string digits_val_def digit_val_digit_char)

lemma cents_length: "r < 100 \<Longrightarrow> length (padStart2 (digits r)) = 2"
  by (simp add: cents_string)

lemma floor_cents: "nat \<lfloor>(of_nat n / 100 :: rat) * 100 + 1 / 2\<rfloor> = n"
proof -
  have "\<lfloor>(of_nat n :: rat) + 1 / 2\<rfloor> = int n"
    by (simp add: floor_unique)
  then show ?thesis by simp
qed

subsection \<open>Replacing by pattern\<close>

lemma replace_char_absent: "c \<notin> set a \<Longrightarrow> replace_char c t (a @ c # b) = a @ t @ b"
  by (induction a) auto

lemma replace_from_Lit:
  "rx_replace_from (Lit c) t prev s = concat (map (\<lambda>x. if x = c then t else [x]) s)"
  by (induction s arbitrary: prev) (auto simp: left_def)

lemma replace_all_Lit:
  "rx_replace_all (Lit c) t s = concat (map (\<lambda>x. if x = c then t else [x]) s)"
  by (simp add: rx_replace_all_def replace_from_Lit)

lemma replace_all_dot: "rx_replace_all rx_dot [] s = filter (\<lambda>x. x \<noteq> CHR ''.'') s"
  by (induction s) (auto simp: rx_dot_def replace_all_Lit)

lemma replace_all_comma:
  "rx_replace_all rx_comma ''.'' s = map (\<lambda>x. if x = CHR '','' then CHR ''.'' else x) s"
  by (induction s) (auto simp: rx_comma_def replace_all_Lit)

lemma run_currency_Nil: "rx_run rx_currency (prev, [], []) = []"
  by (simp add: rx_currency_def left_def)

lemma run_currency_other: "c \<noteq> CHR ''R'' \<Longrightarrow> rx_run rx_currency (prev, c # cs, []) = []"
  by (simp add: rx_currency_def left_def)

lemma replace_from_currency_absent:
  "CHR ''R'' \<notin> set s \<Longrightarrow> rx_replace_from rx_currency t prev s = s"
proof (induction s arbitrary: prev)
  case Nil
  then show ?case by (simp add: run_currency_Nil)
next
  case (Cons c cs)
  then have "c \<noteq> CHR ''R''" by auto
  with Cons show ?case by (simp add: run_currency_other)
qed

text \<open>The symbol, one white-space character and a text that starts with a digit.\<close>

lemma run_currency_symbol:
  assumes "is_space w" "is_digit d"
  shows "rx_run rx_currency (prev, CHR ''R'' # CHR ''$'' # w # d # ds, []) = [(Some w, d # ds, []), (Some CHR ''$'', w # d # ds, [])]"
  using assms
  by (simp add: rx_currency_def left_def digit_not_space)

lemma replace_all_currency:
  assumes "is_space w" "is_digit d" "CHR ''R'' \<notin> set ds"
  shows "rx_replace_all rx_currency [] (CHR ''R'' # CHR ''$'' # w # d # ds) = d # ds"
proof -
  from assms(2) have "d \<noteq> CHR ''R''" by (rule digit_neq)
  with assms(3) have "CHR ''R'' \<notin> set (d # ds)" by auto
  then have "rx_replace_from rx_currency [] (Some w) (d # ds) = d # ds"
    by (rule replace_from_currency_absent)
  then show ?thesis
    using assms(1,2) by (simp add: rx_replace_all_def run_currency_symbol left_def)
qed

lemma all_digits_no:
  assumes "list_all is_digit ds"
  shows "CHR ''R'' \<notin> set ds" "CHR ''.'' \<notin> set ds" "CHR '','' \<notin> set ds"
proof -
  have "\<not> is_digit CHR ''R''" "\<not> is_digit CHR ''.''" "\<not> is_digit CHR '',''"
    by (simp_all add: is_digit_iff)
  with assms show "CHR ''R'' \<notin> set ds" "CHR ''.'' \<notin> set ds" "CHR '','' \<notin> set ds"
    by (auto simp: list_all_iff)
qed

lemma takeWhile_digits_stop:
  "list_all is_digit ds \<Longrightarrow> \<not> is_digit c \<Longrightarrow> takeWhile is_digit (ds @ c # r) = ds"
  by (induction ds) auto

lemma dropWhile_digits_stop:
  "list_all is_digit ds \<Longrightarrow> \<not> is_digit c \<Longrightarrow> dropWhile is_digit (ds @ c # r) = c # r"
  by (induction ds) auto

lemma takeWhile_digits_all: "list_all is_digit ds \<Longrightarrow> takeWhile is_digit ds = ds"
  by (induction ds) auto

lemma dropWhile_digits_all: "list_all is_digit ds \<Longrightarrow> dropWhile is_digit ds = []"
  by (induction ds) auto

lemma not_digit_point: "\<not> is_digit CHR ''.''"
  by (simp add: is_digit_iff)

lemma parseFloat_decimal:
  assumes "list_all is_digit (d # ds)" "list_all is_digit fr"
  shows "parseFloat (d # ds @ CHR ''.'' # fr) =
           Fin (of_nat (digits_val (d # ds @ fr)) / 10 ^ length fr)"
proof -
  define s where "s = d # ds @ CHR ''.'' # fr"
  from assms(1) have d: "is_digit d" by simp
  have sp: "dropWhile is_space s = s"
    using d by (simp add: s_def digit_not_space)
  have t1: "take 1 s = [d]"
    by (simp add: s_def)
  have sg: "([d] = ''-'') = False" "([d] = ''+'') = False"
    using d by (simp_all add: digit_neq)
  have inf: "startsWith s ''Infinity'' = False"
    using d by (simp add: s_def startsWith_def digit_neq)
  have tw: "takeWhile is_digit s = d # ds"
    unfolding s_def using takeWhile_digits_stop [OF assms(1) not_digit_point, of fr] by simp
  have dw: "dropWhile is_digit s = CHR ''.'' # fr"
    unfolding s_def using dropWhile_digits_stop [OF assms(1) not_digit_point, of fr] by simp
  have t2: "(take 1 (CHR ''.'' # fr) = ''.'') = True" "drop 1 (CHR ''.'' # fr) = fr"
    by simp_all
  have fw: "takeWhile is_digit fr = fr" "dropWhile is_digit fr = []"
    using assms(2) by (simp_all add: takeWhile_digits_all dropWhile_digits_all)
  have ex: "exponent [] = 0"
    by (simp add: exponent_def)
  have "parseFloat s = Fin (of_nat (digits_val ((d # ds) @ fr)) / 10 ^ length fr)"
    unfolding parseFloat_def Let_def
    by (simp only: sp t1 sg inf tw dw t2 fw ex if_True if_False simp_thms list.distinct) simp
  then show ?thesis by (simp add: s_def)
qed

subsection \<open>Formatting an amount and reading it back\<close>

lemma trim_unchanged:
  assumes "s \<noteq> []" "\<not> is_space (hd s)" "\<not> is_space (last s)"
  shows "trim s = s"
proof -
  from assms(1,2) have a: "dropWhile is_space s = s"
    by (cases s) auto
  from assms(1) obtain x xs where r: "rev s = x # xs"
    by (cases "rev s") auto
  then have "x = last s"
    by (metis hd_rev list.sel(1))
  with assms(3) have "dropWhile is_space (x # xs) = x # xs"
    by simp
  then have b: "dropWhile is_space (rev s) = rev s"
    by (simp only: r)
  show ?thesis by (simp add: trim_def a b)
qed

declare group3.simps [simp del]

lemma group3_shape:
  "ds \<noteq> [] \<Longrightarrow>
     hd (group3 ds) = hd ds \<and> group3 ds \<noteq> []
     \<and> filter (\<lambda>x. x \<noteq> CHR ''.'') (group3 ds) = filter (\<lambda>x. x \<noteq> CHR ''.'') ds
     \<and> set (group3 ds) \<subseteq> insert CHR ''.'' (set ds)"
proof (induction ds rule: group3.induct)
  case (1 ds)
  show ?case
  proof (cases "length ds \<le> 3")
    case True
    then have "group3 ds = ds" by (subst group3.simps) simp
    with "1.prems" show ?thesis by auto
  next
    case False
    define a where "a = take (length ds - 3) ds"
    define b where "b = drop (length ds - 3) ds"
    have ds: "ds = a @ b" by (simp add: a_def b_def)
    from False have "0 < length ds - 3" "length ds - 3 \<le> length ds" by simp_all
    then have "length a \<noteq> 0" unfolding a_def by simp
    then have ne: "a \<noteq> []" by auto
    from "1.IH" [OF False] ne
    have ih: "hd (group3 a) = hd a" "group3 a \<noteq> []"
      "filter (\<lambda>x. x \<noteq> CHR ''.'') (group3 a) = filter (\<lambda>x. x \<noteq> CHR ''.'') a"
      "set (group3 a) \<subseteq> insert CHR ''.'' (set a)"
      by (simp_all add: a_def)
    have g: "group3 ds = group3 a @ ''.'' @ b"
      using False by (subst group3.simps) (simp add: a_def b_def)
    from ne have "hd ds = hd a" by (simp add: ds)
    with ih show ?thesis
      unfolding g by (auto simp: ds)
  qed
qed

text \<open>What \<open>updateValue\<close> writes for a whole number of cents.\<close>

lemma formatValue_cents:
  "formatValue (Fin (of_nat n / 100)) =
     ''R$ '' @ digits (n div 100) @ '','' @ padStart2 (digits (n mod 100))"
proof -
  have "CHR ''.'' \<notin> set (digits (n div 100))"
    using digits_all by (rule all_digits_no)
  then show ?thesis
    by (simp add: formatValue_def fixed2_def Let_def floor_cents replace_char_absent
        del: of_nat_numeral)
qed

text \<open>Reading a text of digits, a comma and two decimals after the currency symbol.\<close>

lemma parseValue_digits:
  assumes "is_space w" "list_all is_digit ip" "ip \<noteq> []" "list_all is_digit fr" "fr \<noteq> []"
    "filter (\<lambda>x. x \<noteq> CHR ''.'') g = ip" "hd g = hd ip" "g \<noteq> []"
    "set g \<subseteq> insert CHR ''.'' (set ip)"
  shows "parseValue (Some (CHR ''R'' # CHR ''$'' # w # g @ CHR '','' # fr)) =
           Fin (of_nat (digits_val (ip @ fr)) / 10 ^ length fr)"
proof -
  define v where "v = CHR ''R'' # CHR ''$'' # w # g @ CHR '','' # fr"
  obtain d ds where ip: "ip = d # ds" using assms(3) by (cases ip) auto
  obtain d' gs where g: "g = d' # gs" using assms(8) by (cases g) auto
  from assms(7) have dd: "d' = d" by (simp add: ip g)
  from assms(2) have d: "is_digit d" by (simp add: ip)
  have noR: "CHR ''R'' \<notin> set ip" "CHR ''R'' \<notin> set fr" "CHR ''.'' \<notin> set fr" "CHR '','' \<notin> set ip"
    "CHR '','' \<notin> set fr" "CHR ''.'' \<notin> set ip"
    using assms(2,4) all_digits_no by blast+
  from assms(9) noR(1) have gR: "CHR ''R'' \<notin> set g" by auto
  from assms(9) noR(4) have gC: "CHR '','' \<notin> set g" by auto
  have lastfr: "\<not> is_space (last fr)"
    using assms(4,5) by (meson digit_not_space last_in_set list_all_iff)
  have v1: "v \<noteq> []" by (simp add: v_def)
  have v2: "trim v = v"
    using lastfr assms(5) by (intro trim_unchanged) (auto simp: v_def is_space_def)
  have "CHR ''R'' \<notin> set (gs @ CHR '','' # fr)"
    using gR noR(2) by (auto simp: g)
  with assms(1) d
  have "rx_replace_all rx_currency [] (CHR ''R'' # CHR ''$'' # w # d # gs @ CHR '','' # fr)
          = d # gs @ CHR '','' # fr"
    by (rule replace_all_currency)
  then have c1: "rx_replace_all rx_currency [] v = g @ CHR '','' # fr"
    by (simp add: v_def g dd)
  have "filter (\<lambda>x. x \<noteq> CHR ''.'') fr = fr"
    using noR(3) by (auto simp: filter_id_conv)
  with assms(6)
  have c2: "rx_replace_all rx_dot [] (g @ CHR '','' # fr) = ip @ CHR '','' # fr"
    by (simp add: replace_all_dot)
  have "map (\<lambda>x. if x = CHR '','' then CHR ''.'' else x) ip = ip"
    "map (\<lambda>x. if x = CHR '','' then CHR ''.'' else x) fr = fr"
    using noR(4,5) by (auto intro!: map_idI)
  then have c3: "rx_replace_all rx_comma ''.'' (ip @ CHR '','' # fr) = ip @ CHR ''.'' # fr"
    by (simp add: replace_all_comma)
  have c4: "trim (ip @ CHR ''.'' # fr) = ip @ CHR ''.'' # fr"
    using lastfr assms(5) d by (intro trim_unchanged) (auto simp: ip digit_not_space)
  have c5: "parseFloat (ip @ CHR ''.'' # fr) = Fin (of_nat (digits_val (ip @ fr)) / 10 ^ length fr)"
    using parseFloat_decimal [of d ds fr] assms(2,4) by (simp add: ip)
  show ?thesis
    unfolding v_def [symmetric] parseValue_def
    by (simp add: v1 v2 c1 c2 c3 c4 c5 Let_def)
qed

lemma cents_value:
  "(of_nat (digits_val (digits (n div 100) @ padStart2 (digits (n mod 100)))) :: rat)
      / 10 ^ length (padStart2 (digits (n mod 100))) = of_nat n / 100"
proof -
  have "digits_val (digits (n div 100) @ padStart2 (digits (n mod 100))) = n div 100 * 100 + n mod 100"
    by (simp add: digits_val_append digits_val_digits cents_val cents_length)
  then show ?thesis by (simp add: cents_length)
qed

lemma parseValue_formatValue:
  "parseValue (Some (formatValue (Fin (of_nat n / 100)))) = Fin (of_nat n / 100)"
proof -
  have sp: "is_space CHR '' ''" by (simp add: is_space_def)
  have ne: "padStart2 (digits (n mod 100)) \<noteq> []"
    using cents_length [of "n mod 100"] by auto
  have "parseValue (Some (CHR ''R'' # CHR ''$'' # CHR '' '' # digits (n div 100) @ CHR '','' # padStart2 (digits (n mod 100))))
        = Fin (of_nat (digits_val (digits (n div 100) @ padStart2 (digits (n mod 100))))
                / 10 ^ length (padStart2 (digits (n mod 100))))"
    using all_digits_no(2) [OF digits_all, of "n div 100"]
    by (intro parseValue_digits [OF sp digits_all digits_not_Nil cents_all ne])
       (auto simp: filter_id_conv digits_not_Nil)
  then show ?thesis
    by (simp add: formatValue_cents cents_value)
qed

lemma parseValue_formatCurrency:
  "parseValue (Some (formatCurrency (Fin (of_nat n / 100)))) = Fin (of_nat n / 100)"
proof -
  have sp: "is_space (CHR 0xA0)" by (simp add: is_space_def)
  have ne: "padStart2 (digits (n mod 100)) \<noteq> []"
    using cents_length [of "n mod 100"] by auto
  note sh = group3_shape [OF digits_not_Nil, of "n div 100"]
  have nd: "filter (\<lambda>x. x \<noteq> CHR ''.'') (digits (n div 100)) = digits (n div 100)"
    using all_digits_no(2) [OF digits_all, of "n div 100"] by (auto simp: filter_id_conv)
  have "parseValue (Some (CHR ''R'' # CHR ''$'' # CHR 0xA0 # group3 (digits (n div 100)) @ CHR '','' # padStart2 (digits (n mod 100))))
        = Fin (of_nat (digits_val (digits (n div 100) @ padStart2 (digits (n mod 100))))
                / 10 ^ length (padStart2 (digits (n mod 100))))"
    using sh nd by (intro parseValue_digits [OF sp digits_all digits_not_Nil cents_all ne]) auto
  then show ?thesis
    by (simp add: currency2_def Let_def floor_cents cents_value del: of_nat_numeral)
qed

subsection \<open>Evaluating at examples\<close>

lemma digits_numeral [simp]:
  "digits (numeral k) =
     (if (numeral k :: nat) < 10 then [digit_char (numeral k)]
      else digits (numeral k div 10) @ [digit_char (numeral k mod 10)])"
  by (rule digits.simps)

lemma digits_0 [simp]: "digits 0 = ''0''"
  by (subst digits.simps) (simp add: digit_char_simps)

lemma digit_char_Suc_0: "digit_char (Suc 0) = CHR ''1''"
  using digit_char_simps(2) by simp

lemma digits_Suc_0 [simp]: "digits (Suc 0) = ''1''"
  by (subst digits.simps) (simp add: digit_char_Suc_0)

lemma digits_1 [simp]: "digits 1 = ''1''"
  using digits_Suc_0 by simp

lemma int_string_examples:
  "int_string 2024 = ''2024''" "int_string 6 = ''6''" "int_string 36 = ''36''"
  "int_string 4 = ''4''" "int_string 30 = ''30''" "int_string 31 = ''31''" "int_string 32 = ''32''"
  "int_string 1 = ''1''" "int_string 7 = ''7''"
  by (simp_all add: int_string_def digit_char_simps digit_char_Suc_0)

lemma columnToLetter_examples:
  "columnToLetter 1 = ''B''" "columnToLetter 2 = ''C''" "columnToLetter 3 = ''D''"
  "columnToLetter 4 = ''E''" "columnToLetter 5 = ''F''" "columnToLetter 6 = ''G''"
  by code_simp+

lemma formatValue_examples:
  "formatValue (Fin (871 / 10)) = ''R$ 87,10''" "formatValue (Fin (871 / 5)) = ''R$ 174,20''"
  "formatValue (Fin (1 / 250)) = ''R$ 0,00''" "formatValue (Fin (1 / 125)) = ''R$ 0,01''"
  "formatValue (Fin 0) = ''R$ 0,00''" "formatValue (Fin 100) = ''R$ 100,00''"
  "formatValue (Fin 10) = ''R$ 10,00''" "formatValue (Fin 5) = ''R$ 5,00''"
  "formatValue (Fin 1500) = ''R$ 1500,00''"
  by (simp_all add: formatValue_def fixed2_def Let_def padStart2_def digit_char_simps digit_char_Suc_0)

lemma parseValue_None: "parseValue None = Fin 0"
  by (simp add: parseValue_def)

lemma parseValue_examples:
  "parseValue (Some ''R$ 0,00'') = Fin 0" "parseValue (Some ''R$ 87,10'') = Fin (871 / 10)"
  "parseValue (Some ''R$ 100,00'') = Fin 100" "parseValue (Some ''R$ 10,00'') = Fin 10"
  "parseValue (Some ''R$ 5,00'') = Fin 5"
  using parseValue_formatValue [of 0] parseValue_formatValue [of 8710]
    parseValue_formatValue [of 10000] parseValue_formatValue [of 1000]
    parseValue_formatValue [of 500]
  by (simp_all add: formatValue_examples)

subsection \<open>What an update does to the sheet\<close>

lemma updateValue_effect:
  assumes "success (fst (updateValue r s))"
  defines "config \<equiv> getSheetConfig (req_month r) (req_year r)"
  defines "coord \<equiv> getColumnLetter (req_type r) (columnOffset config)
                     @ int_string (getRowNumber (req_day r) config)"
  defines "replace \<equiv> (req_shouldReplace r = Some True)"
  defines "v \<equiv> formatValue (if replace then the (req_value r)
                               else js_add (parseValue (cells s coord)) (the (req_value r)))"
  shows "cells (snd (updateValue r s)) = (cells s)(coord \<mapsto> v)"
    and "calls (snd (updateValue r s)) =
           calls s @ (if replace then [] else [ReadCell coord]) @ [WriteCell coord v]"
    and "grid (snd (updateValue r s)) = grid s" and "refuses (snd (updateValue r s)) = refuses s"
    and "1 \<le> req_day r" and "req_day r \<le> endRow config - startRow config + 1"
    and "req_value r \<noteq> None"
  using assms(1) unfolding config_def coord_def replace_def v_def
  by (auto simp: updateValue_def storeValue_def plus_value_def readCell_def writeCell_def
        received_def Let_def save_error_def failure_def
      split: if_splits option.splits sum.splits prod.splits)

lemma formatDate_examples:
  "formatDate (newDate 2024 0 1) = ''01/01/2024''"
  by (simp add: formatDate_def newDate_def shiftDays_def padStart2_def int_string_examples)

lemma update_examples:
  "updateValue (request Entrada (Fin (871 / 10)) 1 1 2024 True) blank_sheets =
     (\<lparr>success = True,
       message = check_mark @ '' Entrada substitu'' @ [CHR 0xED] @ ''do para R$ 87,10 em 01/01/2024'',
       details = Some \<lparr>d_type = Some ''Entrada'', d_value = ''R$ 87,10'', d_date = ''01/01/2024'',
                        d_column = ''C6''\<rparr>\<rparr>,
      blank_sheets\<lparr>cells := (cells blank_sheets)(''C6'' \<mapsto> ''R$ 87,10''),
                     calls := [WriteCell ''C6'' ''R$ 87,10'']\<rparr>)"
  by (simp add: updateValue_def storeValue_def writeCell_def received_def request_def
        blank_sheets_def getSheetConfig_def getColumnLetter_def baseColumns_def getRowNumber_def
        typeLabel_def shown_def Let_def
        columnToLetter_examples int_string_examples formatValue_examples formatDate_examples)

lemma updateValue_succeeds:
  assumes "1 \<le> req_day r"
    and "req_day r \<le> lastValidDay (req_month r) (req_year r)"
    and "refuses s = (\<lambda>c. None)"
    and "req_value r \<noteq> None"
  shows "success (fst (updateValue r s))" and "refuses (snd (updateValue r s)) = (\<lambda>c. None)"
proof -
  have "lastValidDay (req_month r) (req_year r) \<le> 31"
    by (simp add: lastValidDay_def getSheetConfig_def Let_def)
  with assms have "req_day r \<le> 31" by simp
  with assms
  show "success (fst (updateValue r s))" and "refuses (snd (updateValue r s)) = (\<lambda>c. None)"
    by (auto simp: updateValue_def storeValue_def readCell_def writeCell_def received_def
          lastValidDay_def Let_def)
qed

subsection \<open>Adding twice and replacing twice\<close>

text \<open>
  A double nearest to an amount below \<open>2^45\<close> lies within \<open>2^-9\<close> of it, which is
  less than a quarter of a cent: the double, and the sum of the double with itself,
  are formatted to the same two decimals as the amount and twice the amount.
\<close>

lemma is_double_0: "is_double 0"
  unfolding is_double_def by (intro exI [of _ 0]) simp

lemma is_double_dyadic: "\<bar>m\<bar> < 2 ^ 53 \<Longrightarrow> b \<le> 1074 \<Longrightarrow> is_double (of_int m / 2 ^ b)"
  unfolding is_double_def by (rule exI [of _ m], rule exI [of _ 0], rule exI [of _ b]) simp

lemma is_double_power: "a \<le> 971 \<Longrightarrow> is_double (2 ^ a)"
  unfolding is_double_def by (rule exI [of _ 1], rule exI [of _ a], rule exI [of _ 0]) simp

lemma nearest_double_nonneg:
  assumes "nearest_double x d" "0 \<le> x"
  shows "0 \<le> d"
proof (rule ccontr)
  assume "\<not> 0 \<le> d"
  with assms(2) have "\<bar>x - 0\<bar> < \<bar>x - d\<bar>" by simp
  moreover from assms(1) is_double_0 have "\<bar>x - d\<bar> \<le> \<bar>x - 0\<bar>"
    unfolding nearest_double_def by blast
  ultimately show False by simp
qed

lemma nearest_double_close:
  assumes "nearest_double x d" "0 \<le> x" "x < 2 ^ 45"
  shows "\<bar>x - d\<bar> \<le> 1 / 512"
proof -
  define k where "k = \<lfloor>x * 256 + 1 / 2\<rfloor>"
  define d0 where "d0 = (of_int k :: rat) / 256"
  have lo: "of_int k \<le> x * 256 + 1 / 2" and hi: "x * 256 + 1 / 2 < of_int k + 1"
    unfolding k_def by linarith+
  have "x - d0 \<le> 1 / 512" "d0 - x \<le> 1 / 512"
    using lo hi by (simp_all add: d0_def field_simps)
  then have near: "\<bar>x - d0\<bar> \<le> 1 / 512"
    by linarith
  have k0: "0 \<le> k"
    unfolding k_def using assms(2) by simp
  have "x * 256 + 1 / 2 < 2 ^ 53 + 1"
    using assms(3) by simp
  with lo have "(of_int k :: rat) < of_int (2 ^ 53 + 1)"
    by simp
  then have k1: "k \<le> 2 ^ 53"
    by simp
  have "is_double d0"
  proof (cases "k = 2 ^ 53")
    case True
    then have "d0 = 2 ^ 45" by (simp add: d0_def)
    then show ?thesis using is_double_power [of 45] by simp
  next
    case False
    with k0 k1 have "\<bar>k\<bar> < 2 ^ 53" by simp
    then have "is_double (of_int k / 2 ^ 8)" by (rule is_double_dyadic) simp
    then show ?thesis by (simp add: d0_def)
  qed
  with assms(1) have "\<bar>x - d\<bar> \<le> \<bar>x - d0\<bar>"
    unfolding nearest_double_def by blast
  with near show ?thesis by simp
qed

lemma fixed2_near:
  assumes "\<bar>q - of_nat k / 100\<bar> < 1 / 200"
  shows "fixed2 q = fixed2 (of_nat k / 100)"
proof -
  from assms have "q * 100 - of_nat k < 1 / 2" "of_nat k - q * 100 < 1 / 2"
    by linarith+
  then have "of_int (int k) \<le> q * 100 + 1 / 2" "q * 100 + 1 / 2 < of_int (int k) + 1"
    by simp_all
  then have "\<lfloor>q * 100 + 1 / 2\<rfloor> = int k"
    by (rule floor_unique)
  moreover have "\<lfloor>(of_nat k / 100 :: rat) * 100 + 1 / 2\<rfloor> = int k"
    by (simp add: floor_unique)
  ultimately show ?thesis
    by (simp add: fixed2_def)
qed

lemma formatValue_near:
  assumes "0 \<le> q" "\<bar>q - of_nat k / 100\<bar> < 1 / 200"
  shows "formatValue (Fin q) = formatValue (Fin (of_nat k / 100))"
  using assms fixed2_near [OF assms(2)] by (simp add: formatValue_def)

lemma double_twice:
  assumes "is_double d" "\<bar>d\<bar> < 2 ^ 46"
  shows "is_double (d + d)"
proof -
  from assms(1) obtain m :: int and a b :: nat
    where d: "d = of_int m * 2 ^ a / 2 ^ b" and m: "\<bar>m\<bar> < 2 ^ 53" and a: "a \<le> 971" and b: "b \<le> 1074"
    unfolding is_double_def by blast
  show ?thesis
  proof (cases "b = 0")
    case False
    then obtain b' where b': "b = Suc b'" by (cases b) simp_all
    have "d + d = of_int m * 2 ^ a / 2 ^ b'"
      by (simp add: d b')
    with m a b b' show ?thesis
      unfolding is_double_def by (intro exI [of _ m] exI [of _ a] exI [of _ b']) simp
  next
    case True
    show ?thesis
    proof (cases "a = 971 \<and> m \<noteq> 0")
      case False
      then consider "m = 0" | "a \<le> 970" using a by force
      then show ?thesis
      proof cases
        case 1
        then show ?thesis by (simp add: d is_double_0)
      next
        case 2
        have "d + d = of_int m * 2 ^ Suc a / 2 ^ 0"
          by (simp add: d True)
        with m 2 show ?thesis
          unfolding is_double_def by (intro exI [of _ m] exI [of _ "Suc a"] exI [of _ 0]) simp
      qed
    next
      case c: True
      then have "1 \<le> \<bar>m\<bar>" by linarith
      then have "(1 :: rat) \<le> \<bar>of_int m\<bar>" by simp
      then have "(2 :: rat) ^ 971 \<le> \<bar>of_int m\<bar> * 2 ^ 971"
        by simp
      also have "\<dots> = \<bar>d\<bar>"
        by (simp add: d True c abs_mult)
      finally have "(2 :: rat) ^ 971 < 2 ^ 46"
        using assms(2) by simp
      then show ?thesis by simp
    qed
  qed
qed

lemma nearest_double_self: "is_double x \<Longrightarrow> nearest_double x x"
  by (simp add: nearest_double_def)

lemma formatValue_held:
  assumes "nearest_double (of_nat n / 100) d" "(of_nat n / 100 :: rat) < 2 ^ 45"
  shows "formatValue (Fin d) = formatValue (Fin (of_nat n / 100))"
    and "formatValue (Fin (of_nat n / 100 + d)) = formatValue (Fin (2 * (of_nat n / 100)))"
    and "formatValue (Fin (d + d)) = formatValue (Fin (2 * (of_nat n / 100)))"
    and "is_double (d + d)"
proof -
  define x :: rat where "x = of_nat n / 100"
  have x0: "0 \<le> x" by (simp add: x_def)
  note c = nearest_double_close [OF assms(1) [folded x_def] x0 assms(2) [folded x_def]]
  note d0 = nearest_double_nonneg [OF assms(1) [folded x_def] x0]
  have two: "2 * x = of_nat (2 * n) / 100" by (simp add: x_def)
  have "\<bar>d - x\<bar> < 1 / 200"
    using c by linarith
  then have "formatValue (Fin d) = formatValue (Fin x)"
    unfolding x_def using d0 by (intro formatValue_near)
  then show "formatValue (Fin d) = formatValue (Fin (of_nat n / 100))"
    by (simp only: x_def)
  have "0 \<le> x + d" "\<bar>x + d - 2 * x\<bar> < 1 / 200"
    using c d0 x0 by linarith+
  then have "formatValue (Fin (x + d)) = formatValue (Fin (2 * x))"
    unfolding two by (intro formatValue_near)
  then show "formatValue (Fin (of_nat n / 100 + d)) = formatValue (Fin (2 * (of_nat n / 100)))"
    by (simp only: x_def)
  have "0 \<le> d + d" "\<bar>d + d - 2 * x\<bar> < 1 / 200"
    using c d0 by linarith+
  then have "formatValue (Fin (d + d)) = formatValue (Fin (2 * x))"
    unfolding two by (intro formatValue_near)
  then show "formatValue (Fin (d + d)) = formatValue (Fin (2 * (of_nat n / 100)))"
    by (simp only: x_def)
  from assms(1) have "is_double d" by (simp add: nearest_double_def)
  moreover have "d < x + 1" using c by linarith
  with assms(2) d0 have "\<bar>d\<bar> < 2 ^ 46" by (simp add: x_def)
  ultimately show "is_double (d + d)" by (rule double_twice)
qed

text \<open>
  C1, as the program has it.  The amount is a whole number of cents, \<open>n / 100\<close>, below
  \<open>2^45\<close>, and the request carries the double nearest to it; the day exists in its
  month and the storage refuses no call.  Starting from a blank cell, two updates that
  add the amount leave the text of twice the amount in the cell, formatted as
  \<open>updateValue\<close> formats it.  Two updates that replace leave the text of the second
  amount in the cell, whatever the cell held and whatever the first update wrote.
  The second addition reads the cell back: the model reads the amount itself, the
  program the double nearest to it, so that its sum is the double added to itself; that
  sum is a double again and is formatted to the same text.
\<close>

theorem update_twice:
  fixes n m :: nat and dx dy :: rat and z :: number and t :: mtype and d mo yr :: int
    and s :: sheets
  defines "x \<equiv> of_nat n / 100"
  defines "y \<equiv> of_nat m / 100"
  defines "config \<equiv> getSheetConfig mo yr"
  defines "coord \<equiv> getColumnLetter t (columnOffset config) @ int_string (getRowNumber d config)"
  defines "add \<equiv> request t (Fin dx) d mo yr False"
  defines "s2 \<equiv> snd (updateValue add (snd (updateValue add s)))"
  defines "r2 \<equiv> snd (updateValue (request t (Fin dy) d mo yr True)
                         (snd (updateValue (request t z d mo yr True) s)))"
  assumes day: "1 \<le> d" "d \<le> lastValidDay mo yr"
    and works: "refuses s = (\<lambda>c. None)"
    and below: "x < 2 ^ 45" "y < 2 ^ 45"
    and held: "nearest_double x dx" "nearest_double y dy"
  shows "(cells s coord = None \<longrightarrow> cells s2 coord = Some (formatValue (Fin (2 * x))))
       \<and> cells r2 coord = Some (formatValue (Fin y))
       \<and> is_double (dx + dx)
       \<and> formatValue (Fin (dx + dx)) = formatValue (Fin (2 * x))"
proof (intro conjI impI)
  define s1 where "s1 = snd (updateValue add s)"
  define r1 where "r1 = snd (updateValue (request t z d mo yr True) s)"
  note fx = formatValue_held [OF held(1) [unfolded x_def] below(1) [unfolded x_def], folded x_def]
  note fy = formatValue_held [OF held(2) [unfolded y_def] below(2) [unfolded y_def], folded y_def]
  have ok1: "success (fst (updateValue add s))" and w1: "refuses s1 = (\<lambda>c. None)"
    unfolding s1_def using day works
    by (auto intro!: updateValue_succeeds simp: add_def request_def)
  have ok2: "success (fst (updateValue add s1))"
    using day w1 by (auto intro!: updateValue_succeeds simp: add_def request_def)
  have w3: "refuses r1 = (\<lambda>c. None)"
    unfolding r1_def using day works
    by (auto intro!: updateValue_succeeds simp: request_def)
  have ok4: "success (fst (updateValue (request t (Fin dy) d mo yr True) r1))"
    using day w3 by (auto intro!: updateValue_succeeds simp: request_def)
  show "cells r2 coord = Some (formatValue (Fin y))"
    using updateValue_effect(1) [OF ok4]
    by (simp add: r2_def r1_def request_def coord_def config_def fy(1))
  show "is_double (dx + dx)" by (rule fx(4))
  show "formatValue (Fin (dx + dx)) = formatValue (Fin (2 * x))" by (rule fx(3))
  assume blank: "cells s coord = None"
  have c1: "cells s1 coord = Some (formatValue (Fin x))"
    using updateValue_effect(1) [OF ok1] blank
    by (simp add: s1_def add_def request_def coord_def config_def parseValue_None fx(1))
  have "cells s2 coord = Some (formatValue (js_add (parseValue (cells s1 coord)) (Fin dx)))"
    using updateValue_effect(1) [OF ok2]
    by (simp add: s2_def s1_def add_def request_def coord_def config_def)
  also have "parseValue (cells s1 coord) = Fin x"
    unfolding c1 x_def by (rule parseValue_formatValue)
  finally show "cells s2 coord = Some (formatValue (Fin (2 * x)))"
    by (simp add: fx(2))
qed

lemma blank_sheets_simps:
  "cells blank_sheets = (\<lambda>c. None)" "refuses blank_sheets = (\<lambda>c. None)"
  "calls blank_sheets = []" "grid blank_sheets = (\<lambda>r. [])"
  by (simp_all add: blank_sheets_def)

lemma layout_examples:
  "lastValidDay 1 2024 = 31" "lastValidDay 4 2024 = 30"
  "columnOffset (getSheetConfig 1 2024) = 0" "getRowNumber 1 (getSheetConfig 1 2024) = 6"
  "getColumnLetter Entrada 0 = ''C''"
  by (simp_all add: lastValidDay_def getSheetConfig_def getRowNumber_def getColumnLetter_def
        baseColumns_def columnToLetter_examples)

lemma nearest_on_grid:
  fixes x d :: rat and k :: int and b :: nat
  assumes d: "d = of_int k / 2 ^ b" and k: "2 ^ 52 < k" "k < 2 ^ 53" and b: "b \<le> 1074"
    and near: "\<bar>x - d\<bar> \<le> 1 / 2 ^ Suc b"
  shows "nearest_double x d"
  unfolding nearest_double_def
proof (intro conjI allI impI)
  from k have "\<bar>k\<bar> < 2 ^ 53" by simp
  then show "is_double d" unfolding d using b by (rule is_double_dyadic)
next
  fix d' assume "is_double d'"
  then obtain m :: int and a c :: nat
    where d': "d' = of_int m * 2 ^ a / 2 ^ c" and m: "\<bar>m\<bar> < 2 ^ 53"
    unfolding is_double_def by blast
  show "\<bar>x - d\<bar> \<le> \<bar>x - d'\<bar>"
  proof (rule ccontr)
    assume "\<not> \<bar>x - d\<bar> \<le> \<bar>x - d'\<bar>"
    then have closer: "\<bar>x - d'\<bar> < \<bar>x - d\<bar>" by simp
    with near have "\<bar>d - d'\<bar> < 2 * (1 / 2 ^ Suc b)" by linarith
    then have dd: "\<bar>d - d'\<bar> < 1 / 2 ^ b" by simp
    have pb: "(0 :: rat) < 2 ^ b" and pc: "(0 :: rat) < 2 ^ c" by simp_all
    from dd have "\<bar>d - d'\<bar> * 2 ^ b < 1"
      using pb by (simp add: field_simps)
    then have "\<bar>d * 2 ^ b - d' * 2 ^ b\<bar> < 1"
      by (simp add: abs_mult flip: left_diff_distrib)
    then have kd: "\<bar>of_int k - d' * 2 ^ b\<bar> < 1"
      by (simp add: d)
    have "c \<le> a + b"
    proof (rule ccontr)
      assume "\<not> c \<le> a + b"
      then obtain e where e: "c = Suc (a + b + e)"
        by (metis less_iff_Suc_add not_le_imp_less)
      have "d' * 2 ^ b = of_int m / (2 * 2 ^ e)"
        by (simp add: d' e power_add)
      then have "\<bar>d' * 2 ^ b\<bar> = \<bar>of_int m\<bar> / (2 * 2 ^ e)"
        by (simp add: abs_divide abs_mult)
      also have "\<dots> \<le> \<bar>of_int m\<bar> / 2"
        by (intro divide_left_mono) simp_all
      also have "\<dots> < 2 ^ 53 / 2"
      proof -
        from m have "(of_int \<bar>m\<bar> :: rat) < of_int (2 ^ 53)" by (simp only: of_int_less_iff)
        then show ?thesis by simp
      qed
      finally have small: "\<bar>d' * 2 ^ b\<bar> < 2 ^ 52" by simp
      from k(1) have "(of_int (2 ^ 52 + 1) :: rat) \<le> of_int k" by (simp only: of_int_le_iff)
      then have "(2 :: rat) ^ 52 + 1 \<le> of_int k" by simp
      with small kd show False by linarith
    qed
    then obtain e where e: "a + b = c + e"
      by (metis le_Suc_ex)
    have "d' * 2 ^ b = of_int m * 2 ^ (a + b) / 2 ^ c"
      by (simp add: d' power_add)
    also have "\<dots> = of_int (m * 2 ^ e)"
      by (simp add: e power_add)
    finally have j: "d' * 2 ^ b = of_int (m * 2 ^ e)" .
    from kd have "\<bar>(of_int (k - m * 2 ^ e) :: rat)\<bar> < 1"
      by (simp add: j)
    then have "\<bar>k - m * 2 ^ e\<bar> < 1"
      by (simp only: flip: of_int_abs)
    then have "k = m * 2 ^ e" by simp
    with j have "d' * 2 ^ b = d * 2 ^ b" by (simp add: d)
    then have "d' = d" by simp
    with closer show False by simp
  qed
qed

lemma held_87_10: "nearest_double (871 / 10) (3064558808937267 / 2 ^ 45)"
proof (rule nearest_on_grid [where k = 6129117617874534 and b = 46])
  show "(3064558808937267 / 2 ^ 45 :: rat) = of_int 6129117617874534 / 2 ^ 46" by simp
  show "(2 :: int) ^ 52 < 6129117617874534" by simp
  show "(6129117617874534 :: int) < 2 ^ 53" by simp
  show "(46 :: nat) \<le> 1074" by simp
  show "\<bar>871 / 10 - 3064558808937267 / 2 ^ 45 :: rat\<bar> \<le> 1 / 2 ^ Suc 46" by simp
qed

lemma held_10: "nearest_double 10 10"
  using is_double_dyadic [of 10 0] by (simp add: nearest_double_self)

theorem update_twice_witness:
  "nearest_double (871 / 10) (3064558808937267 / 2 ^ 45)
   \<and> cells (snd (updateValue (request Entrada (Fin (3064558808937267 / 2 ^ 45)) 1 1 2024 False)
                   (snd (updateValue (request Entrada (Fin (3064558808937267 / 2 ^ 45)) 1 1 2024 False)
                           blank_sheets))))
       ''C6'' = Some ''R$ 174,20''
   \<and> cells (snd (updateValue (request Entrada (Fin 10) 1 1 2024 True)
                   (snd (updateValue (request Entrada (Fin 5) 1 1 2024 True) blank_sheets))))
       ''C6'' = Some ''R$ 10,00''
   \<and> is_double (3064558808937267 / 2 ^ 45 + 3064558808937267 / 2 ^ 45)
   \<and> formatValue (Fin (3064558808937267 / 2 ^ 45 + 3064558808937267 / 2 ^ 45)) = ''R$ 174,20''"
proof -
  have h: "nearest_double (of_nat 8710 / 100) (3064558808937267 / 2 ^ 45)"
    "nearest_double (of_nat 1000 / 100) 10"
    using held_87_10 held_10 by simp_all
  have b: "(of_nat 8710 / 100 :: rat) < 2 ^ 45" "(of_nat 1000 / 100 :: rat) < 2 ^ 45"
    by simp_all
  have day: "(1 :: int) \<le> 1" "1 \<le> lastValidDay 1 2024"
    by (simp_all add: layout_examples)
  note w = update_twice [where t = Entrada and z = "Fin 5" and s = blank_sheets,
      OF day blank_sheets_simps(2) b h]
  from w held_87_10 show ?thesis
    by (simp add: blank_sheets_simps layout_examples int_string_examples formatValue_examples)
qed

text \<open>
  C1 as stated fails for an amount with a third decimal: adding 0.004 twice to a blank
  cell leaves \<open>R$ 0,00\<close>, while twice the amount, 0.008, is formatted \<open>R$ 0,01\<close>.
\<close>

theorem update_twice_counterexample:
  "cells (snd (updateValue (request Entrada (Fin (1 / 250)) 1 1 2024 False)
                 (snd (updateValue (request Entrada (Fin (1 / 250)) 1 1 2024 False) blank_sheets))))
     ''C6'' = Some ''R$ 0,00''
   \<and> formatValue (Fin (2 * (1 / 250))) = ''R$ 0,01''
   \<and> cells blank_sheets ''C6'' = None"
proof -
  let ?r = "request Entrada (Fin (1 / 250)) 1 1 2024 False"
  have day: "1 \<le> req_day ?r" "req_day ?r \<le> lastValidDay (req_month ?r) (req_year ?r)"
    by (simp_all add: request_def layout_examples)
  note ok1 = updateValue_succeeds [OF day blank_sheets_simps(2)]
  note ok2 = updateValue_succeeds(1) [OF day ok1(2)]
  have c1: "cells (snd (updateValue ?r blank_sheets)) ''C6'' = Some ''R$ 0,00''"
    using updateValue_effect(1) [OF ok1(1)]
    by (simp add: request_def blank_sheets_simps layout_examples int_string_examples
          parseValue_None formatValue_examples)
  have "cells (snd (updateValue ?r (snd (updateValue ?r blank_sheets)))) ''C6'' = Some ''R$ 0,00''"
    using updateValue_effect(1) [OF ok2] c1
    by (simp add: request_def layout_examples int_string_examples parseValue_examples
          formatValue_examples)
  then show ?thesis
    by (simp add: formatValue_examples blank_sheets_simps)
qed

subsection \<open>A day past the end of the month\<close>

text \<open>
  C3, as the program has it.  A request whose day exceeds the number of days of its
  month is refused and the storage is left as it was: no cell is read or written, and
  the day is not replaced by a valid one.  Up to day 31 the message names the number of
  days of the month; from day 32 on the first check of \<open>updateValue\<close> answers instead,
  with a message that names the day only.
\<close>

theorem update_rejects_day_past_month:
  assumes "lastValidDay (req_month r) (req_year r) < req_day r"
  shows "updateValue r s =
           (failure (if req_day r \<le> 31
                     then ''O m'' @ [CHR 0xEA] @ ''s '' @ int_string (req_month r) @ ''/''
                            @ int_string (req_year r) @ '' s'' @ [CHR 0xF3] @ '' tem ''
                            @ int_string (lastValidDay (req_month r) (req_year r)) @ '' dias''
                     else ''Dia inv'' @ [CHR 0xE1] @ ''lido: '' @ int_string (req_day r)), s)"
proof -
  have "28 \<le> lastValidDay (req_month r) (req_year r)"
    by (simp add: lastValidDay_def getSheetConfig_def Let_def)
  with assms have "1 \<le> req_day r" by simp
  with assms show ?thesis
    by (simp add: updateValue_def lastValidDay_def Let_def)
qed

theorem update_rejects_day_past_month_witness:
  "lastValidDay 4 2024 < 31
   \<and> updateValue (request Saida (Fin 1500) 31 4 2024 True) blank_sheets =
       (failure (''O m'' @ [CHR 0xEA] @ ''s 4/2024 s'' @ [CHR 0xF3] @ '' tem 30 dias''),
        blank_sheets)"
  using update_rejects_day_past_month [of "request Saida (Fin 1500) 31 4 2024 True" blank_sheets]
  by (simp add: request_def layout_examples int_string_examples)

text \<open>
  C3 as stated fails from day 32 on: for day 32 of January the message is
  \<open>Dia inv\'alido: 32\<close>, which does not mention the 31 days of the month.
\<close>

theorem update_rejects_day_past_month_counterexample:
  "lastValidDay 1 2024 < 32
   \<and> message (fst (updateValue (request Saida (Fin 1500) 32 1 2024 True) blank_sheets))
       = ''Dia inv'' @ [CHR 0xE1] @ ''lido: 32''
   \<and> \<not> str_includes (''Dia inv'' @ [CHR 0xE1] @ ''lido: 32'') (int_string (lastValidDay 1 2024))"
  by (simp add: updateValue_def request_def failure_def layout_examples int_string_examples
        startsWith_def)

subsection \<open>The cell an update writes\<close>

text \<open>
  C10.  A successful \<open>updateValue\<close> issues exactly one write, to the coordinate that
  the field, the day, the month and the year address, and leaves every other cell as
  it was.  When the request replaces, the write is the only call, no read comes before
  it, and the text written is the formatted amount of the request, whatever the cell
  held.  When it adds, one read of the same cell comes before the write.  An update
  that succeeds has an amount: its \<open>value\<close> is not undefined.
\<close>

theorem update_writes_one_cell:
  assumes "success (fst (updateValue r s))"
  defines "config \<equiv> getSheetConfig (req_month r) (req_year r)"
  defines "coord \<equiv> getColumnLetter (req_type r) (columnOffset config)
                     @ int_string (getRowNumber (req_day r) config)"
  defines "replace \<equiv> (req_shouldReplace r = Some True)"
  defines "v \<equiv> formatValue (if replace then the (req_value r)
                               else js_add (parseValue (cells s coord)) (the (req_value r)))"
  shows "cells (snd (updateValue r s)) = (cells s)(coord \<mapsto> v)
       \<and> calls (snd (updateValue r s)) =
           calls s @ (if replace then [] else [ReadCell coord]) @ [WriteCell coord v]
       \<and> req_value r \<noteq> None"
  using updateValue_effect(1,2,7) [OF assms(1)]
  unfolding config_def coord_def replace_def v_def by simp

theorem update_writes_one_cell_witness:
  "success (fst (updateValue (request Entrada (Fin (871 / 10)) 1 1 2024 True) blank_sheets))
   \<and> cells (snd (updateValue (request Entrada (Fin (871 / 10)) 1 1 2024 True) blank_sheets))
       = (cells blank_sheets)(''C6'' \<mapsto> ''R$ 87,10'')
   \<and> calls (snd (updateValue (request Entrada (Fin (871 / 10)) 1 1 2024 True) blank_sheets))
       = [WriteCell ''C6'' ''R$ 87,10'']"
proof -
  have ok: "success (fst (updateValue (request Entrada (Fin (871 / 10)) 1 1 2024 True) blank_sheets))"
    by (simp add: update_examples)
  from update_writes_one_cell [OF ok] ok show ?thesis
    by (simp add: request_def blank_sheets_simps layout_examples int_string_examples
          formatValue_examples)
qed

subsection \<open>The totals of a month\<close>

lemma parseValue_or_null_cell:
  "parseValue (or_null (Some (case c of None \<Rightarrow> [] | Some t \<Rightarrow> t))) = parseValue c"
  by (cases c) (auto simp: or_null_def parseValue_def split: list.splits)

lemma getMonthTotals_Some:
  assumes "fst (getMonthTotals today mo yr s) = Some r"
  defines "offset \<equiv> columnOffset (getSheetConfig mo yr)"
  shows "saidaTotal r = parseValue (cells s (columnToLetter (1 + offset) @ ''43''))"
    and "performance r = parseValue (cells s (columnToLetter (4 + offset) @ ''43''))"
    and "totalEntradas r = parseValue (cells s (columnToLetter (2 + offset) @ ''40''))"
    and "totalSaidas r = parseValue (cells s (columnToLetter (3 + offset) @ ''40''))"
    and "totalDiario r = parseValue (cells s (columnToLetter (4 + offset) @ ''40''))"
    and "mediaDiaria r =
           (if diasComDados r > 0
            then js_div (js_add (js_add (totalEntradas r) (totalSaidas r)) (totalDiario r))
                   (Fin (of_nat (diasComDados r)))
            else Fin 0)"
  using assms(1) unfolding offset_def
  by (auto simp: getMonthTotals_def batchRead_def readRange_def received_def Let_def
        parseValue_or_null_cell
      split: option.splits sum.splits prod.splits if_splits)

text \<open>
  C2, as the program has it.  \<open>getMonthTotals\<close> does not compute the saida total
  and the performance: it reads them from the sheet, from row 43 of the month's
  columns 1 and 4, as it reads the three totals from row 40 of columns 2, 3 and 4.
  They are the sum and the difference the claim names only when those cells hold them.
\<close>

theorem month_totals_read_from_sheet:
  assumes "fst (getMonthTotals today mo yr s) = Some r"
  defines "offset \<equiv> columnOffset (getSheetConfig mo yr)"
  shows "saidaTotal r = parseValue (cells s (columnToLetter (1 + offset) @ ''43''))
       \<and> performance r = parseValue (cells s (columnToLetter (4 + offset) @ ''43''))
       \<and> totalEntradas r = parseValue (cells s (columnToLetter (2 + offset) @ ''40''))
       \<and> totalSaidas r = parseValue (cells s (columnToLetter (3 + offset) @ ''40''))
       \<and> totalDiario r = parseValue (cells s (columnToLetter (4 + offset) @ ''40''))"
  using getMonthTotals_Some(1-5) [OF assms(1)] unfolding offset_def by simp

lemma totals_only_simps:
  "cells totals_only ''C40'' = Some ''R$ 100,00''" "cells totals_only ''D40'' = Some ''R$ 10,00''"
  "cells totals_only ''E40'' = Some ''R$ 5,00''" "cells totals_only ''B43'' = None"
  "cells totals_only ''E43'' = None" "refuses totals_only = (\<lambda>c. None)"
  "grid totals_only = (\<lambda>r. [])"
  by (simp_all add: totals_only_def)

lemma month_totals_example:
  "fst (getMonthTotals jan2 1 2025 totals_only) =
     Some \<lparr>ms_month = 1, ms_year = 2025, totalEntradas = Fin 100, totalSaidas = Fin 10,
            totalDiario = Fin 5, saidaTotal = Fin 0, performance = Fin 0, diasComDados = 0,
            mediaDiaria = Fin 0\<rparr>"
  by (simp add: getMonthTotals_def batchRead_def readRange_def received_def Let_def
        getSheetConfig_def columnToLetter_examples totals_only_simps or_null_def
        parseValue_examples parseValue_None)

theorem month_totals_read_from_sheet_witness:
  "map_option (\<lambda>r. (totalEntradas r, totalSaidas r, totalDiario r, saidaTotal r, performance r))
     (fst (getMonthTotals jan2 1 2025 totals_only)) = Some (Fin 100, Fin 10, Fin 5, Fin 0, Fin 0)"
  using month_totals_read_from_sheet [OF month_totals_example]
  by (simp add: month_totals_example)

text \<open>
  C2 as stated fails on a sheet whose row 43 is blank: the totals are 100, 10 and 5,
  the saida total returned is 0 and not 15, the performance 0 and not 85.
\<close>

theorem month_totals_counterexample:
  "map_option (\<lambda>r. saidaTotal r = js_add (totalSaidas r) (totalDiario r)
                    \<and> performance r = js_sub (totalEntradas r) (saidaTotal r))
     (fst (getMonthTotals jan2 1 2025 totals_only)) = Some False"
  by (simp add: month_totals_example js_sub_def)

subsection \<open>A month without data\<close>

text \<open>
  C8.  When no day of the month has data, \<open>getMonthTotals\<close> returns the daily average
  0, taken from the guard and not from a division, and \<open>getForecastReport\<close> returns its
  fixed reply instead of a projection.  Whenever it does return a projection, the
  number of days with data it divided by is positive.
\<close>

theorem no_data_no_division:
  "(fst (getMonthTotals today mo yr s) = Some r \<and> diasComDados r = 0 \<longrightarrow> mediaDiaria r = Fin 0)
   \<and> (fst (getMonthTotals today (getMonth today + 1) (getFullYear today) s) = Some r
        \<and> diasComDados r = 0 \<longrightarrow> fst (getForecastReport today s) = Inl no_forecast)
   \<and> (fst (getForecastReport today s) = Inr f \<longrightarrow>
        (\<exists>r'. fst (getMonthTotals today (getMonth today + 1) (getFullYear today) s) = Some r'
              \<and> 0 < diasComDados r'
              \<and> mediaSaidas f = js_div (totalSaidas r') (Fin (of_nat (diasComDados r')))))"
proof (intro conjI impI)
  assume "fst (getMonthTotals today mo yr s) = Some r \<and> diasComDados r = 0"
  then show "mediaDiaria r = Fin 0"
    using getMonthTotals_Some(6) [of today mo yr s r] by simp
next
  assume "fst (getMonthTotals today (getMonth today + 1) (getFullYear today) s) = Some r
            \<and> diasComDados r = 0"
  then show "fst (getForecastReport today s) = Inl no_forecast"
    by (auto simp: getForecastReport_def Let_def split: prod.splits)
next
  assume "fst (getForecastReport today s) = Inr f"
  then show "\<exists>r'. fst (getMonthTotals today (getMonth today + 1) (getFullYear today) s) = Some r'
              \<and> 0 < diasComDados r'
              \<and> mediaSaidas f = js_div (totalSaidas r') (Fin (of_nat (diasComDados r')))"
    by (auto simp: getForecastReport_def Let_def split: prod.splits option.splits if_splits)
qed

lemma jan2_simps: "getFullYear jan2 = 2025" "getMonth jan2 = 0" "getDate jan2 = 2"
  by (simp_all add: jan2_def)

theorem no_data_no_division_witness:
  "map_option diasComDados (fst (getMonthTotals jan2 1 2025 totals_only)) = Some 0
   \<and> map_option mediaDiaria (fst (getMonthTotals jan2 1 2025 totals_only)) = Some (Fin 0)
   \<and> fst (getForecastReport jan2 totals_only) = Inl no_forecast"
  using no_data_no_division [of jan2 1 2025 totals_only
      "\<lparr>ms_month = 1, ms_year = 2025, totalEntradas = Fin 100, totalSaidas = Fin 10,
        totalDiario = Fin 5, saidaTotal = Fin 0, performance = Fin 0, diasComDados = 0,
        mediaDiaria = Fin 0\<rparr>"]
  by (simp add: month_totals_example jan2_simps)

subsection \<open>Normalising an amount\<close>

lemma parseFloat_examples:
  "parseFloat ''87.10'' = Fin (871 / 10)" "parseFloat ''1234.56'' = Fin (30864 / 25)"
  "parseFloat ''100'' = Fin 100"
  by (simp_all add: parseFloat_def Let_def startsWith_def is_digit_iff is_space_def digits_val_def
        digit_val_def exponent_def)

lemma normalizeValue_examples:
  "normalizeValue ''87,10'' = Fin (871 / 10)" "normalizeValue ''87.10'' = Fin (871 / 10)"
  "normalizeValue ''1.234,56'' = Fin (30864 / 25)" "normalizeValue ''100'' = Fin 100"
  by (simp_all add: normalizeValue_def Let_def trim_def is_space_def join_def parseFloat_examples)

lemma currency2_example:
  "currency2 (30864 / 25) = ''R$'' @ [CHR 0xA0] @ ''1.234,56''"
  by (simp add: currency2_def Let_def padStart2_def digit_char_simps digit_char_Suc_0
        group3.simps [of "''1234''"] group3.simps [of "''1''"])

text \<open>
  C5.  \<open>normalizeValue\<close> maps \<open>87,10\<close> and \<open>87.10\<close> to 87.10 and \<open>1.234,56\<close> to 1234.56.
  For every non-negative amount with at most two decimals, that is \<open>n / 100\<close> for a
  natural number \<open>n\<close>, \<open>parseValue\<close> applied to the text \<open>formatCurrency\<close> gives for it
  returns the amount.
\<close>

theorem amounts_normalised_and_read_back:
  "normalizeValue ''87,10'' = Fin (871 / 10)
   \<and> normalizeValue ''87.10'' = Fin (871 / 10)
   \<and> normalizeValue ''1.234,56'' = Fin (123456 / 100)
   \<and> parseValue (Some (formatCurrency (Fin (of_nat n / 100)))) = Fin (of_nat n / 100)"
proof -
  have "normalizeValue ''1.234,56'' = Fin (123456 / 100)"
    by (simp add: normalizeValue_examples)
  then show ?thesis
    using normalizeValue_examples(1,2) parseValue_formatCurrency [of n] by blast
qed

theorem amounts_normalised_and_read_back_witness:
  "formatCurrency (Fin (123456 / 100)) = ''R$'' @ [CHR 0xA0] @ ''1.234,56''
   \<and> parseValue (Some (''R$'' @ [CHR 0xA0] @ ''1.234,56'')) = Fin (123456 / 100)"
  using amounts_normalised_and_read_back [of 123456]
  by (simp add: currency2_example)

subsection \<open>Parsing a replacement\<close>

lemma sub_saida_trim: "trim ''sub saida 100 16/12'' = ''sub saida 100 16/12''" by code_simp
lemma sub_saida_replace: "shouldReplace ''sub saida 100 16/12''" by code_simp
lemma sub_saida_clean: "rx_replace rx_sub_i [] ''sub saida 100 16/12'' = ''saida 100 16/12''" by code_simp
lemma sub_saida_type: "detectType ''saida 100 16/12'' = Some Saida" by code_simp
lemma sub_saida_number_text: "trim (rx_replace_all rx_date [] (trim (rx_replace_all rx_keywords [] (toLowerCase ''saida 100 16/12'')))) = ''100''" by code_simp
lemma sub_saida_number: "rx_match rx_number ''100'' = Some (''100'', [])" by code_simp
lemma sub_saida_date_text: "rx_match rx_date_group ''saida 100 16/12'' = Some (''16/12'', [(1, ''16/12'')])" by code_simp
lemma full_date_16_12: "rx_match rx_full_date ''16/12'' = Some (''16/12'', [(2, ''12''), (1, ''16'')])" by code_simp
lemma sub_saida_no_day_word: "\<not> str_includes (toLowerCase ''saida 100 16/12'') ''hoje''"
  "\<not> str_includes (toLowerCase ''saida 100 16/12'') ''ontem''"
  "\<not> str_includes (toLowerCase ''saida 100 16/12'') ''amanha''"
  "\<not> str_includes (toLowerCase ''saida 100 16/12'') amanha_til"
  by code_simp+
lemma trim_16_12: "trim (toLowerCase ''16/12'') = ''16/12''" by code_simp

lemma forward_numeral [simp]: "forward (numeral k) d = forward (pred_numeral k) (nextDay d)"
  by (simp add: numeral_eq_Suc)

lemma backward_numeral [simp]: "backward (numeral k) d = backward (pred_numeral k) (prevDay d)"
  by (simp add: numeral_eq_Suc)

lemma parseInt_examples: "parseInt ''16'' = 16" "parseInt ''12'' = 12" "parseInt ''31'' = 31" "parseInt ''04'' = 4"
  by (simp_all add: parseInt_def digits_val_def digit_val_def)

lemma december_16: "100 \<le> y \<Longrightarrow> newDate y 11 16 = \<lparr>getFullYear = y, getMonth = 11, getDate = 16\<rparr>"
  by (simp add: newDate_def shiftDays_def nextDay_def monthLength_def)

lemma parseDate_16_12:
  assumes "100 \<le> getFullYear now"
  shows "parseDate now ''16/12'' = \<lparr>getFullYear = getFullYear now, getMonth = 11, getDate = 16\<rparr>"
  using assms
  by (simp add: parseDate_def trim_16_12 full_date_16_12 captured_def parseInt_examples
        amanha_til_def a_tilde_def december_16 Let_def)

lemma extractDate_sub_saida: "extractDate now ''saida 100 16/12'' = parseDate now ''16/12''"
  by (simp add: extractDate_def Let_def sub_saida_no_day_word sub_saida_date_text captured_def)

lemma extractValue_sub_saida: "extractValue ''saida 100 16/12'' = Some (Fin 100)"
  by (simp add: extractValue_def Let_def sub_saida_number_text sub_saida_number
        normalizeValue_examples)

text \<open>
  C7.  Whatever the day of the request, provided its year has at least three digits
  (the clock's year always has), \<open>parse\<close> reads \<open>sub saida 100 16/12\<close> as a saida of
  100 on the 16th of December of the current year, to replace the cell.
\<close>

theorem parse_sub_saida:
  assumes "100 \<le> getFullYear now"
  shows "parse now ''sub saida 100 16/12'' =
           Some \<lparr>p_type = Saida, p_value = Some (Fin 100),
                  p_date = \<lparr>getFullYear = getFullYear now, getMonth = 11, getDate = 16\<rparr>,
                  rawText = ''sub saida 100 16/12'', p_shouldReplace = Some True,
                  targetDate = None\<rparr>"
  using assms
  by (simp add: parse_def parseUpdate_def Let_def sub_saida_trim sub_saida_replace sub_saida_clean
        sub_saida_type extractValue_sub_saida extractDate_sub_saida parseDate_16_12)

theorem parse_sub_saida_witness:
  "100 \<le> getFullYear jan2
   \<and> parse jan2 ''sub saida 100 16/12'' =
       Some \<lparr>p_type = Saida, p_value = Some (Fin 100),
              p_date = \<lparr>getFullYear = 2025, getMonth = 11, getDate = 16\<rparr>,
              rawText = ''sub saida 100 16/12'', p_shouldReplace = Some True,
              targetDate = None\<rparr>"
  using parse_sub_saida [of jan2] by (simp add: jan2_simps)

subsection \<open>The calendar\<close>

lemma monthLength_bounds: "28 \<le> monthLength y m" "monthLength y m \<le> 31"
  by (simp_all add: monthLength_def)

lemma calendar_nextDay: "calendar_date d \<Longrightarrow> calendar_date (nextDay d)"
  using monthLength_bounds(1) [of "getFullYear d" "getMonth d + 1"] monthLength_bounds(1) [of "getFullYear d + 1" 0]
  by (auto simp: calendar_date_def nextDay_def)

lemma calendar_prevDay: "calendar_date d \<Longrightarrow> calendar_date (prevDay d)"
  using monthLength_bounds(1) [of "getFullYear d" "getMonth d - 1"]
  by (auto simp: calendar_date_def prevDay_def monthLength_def)

lemma calendar_forward: "calendar_date d \<Longrightarrow> calendar_date (forward n d)"
  by (induction n arbitrary: d) (auto simp: calendar_nextDay)

lemma calendar_backward: "calendar_date d \<Longrightarrow> calendar_date (backward n d)"
  by (induction n arbitrary: d) (auto simp: calendar_prevDay)

lemma calendar_shiftDays: "calendar_date d \<Longrightarrow> calendar_date (shiftDays k d)"
  by (simp add: shiftDays_def calendar_forward calendar_backward)

lemma calendar_first: "0 \<le> m \<Longrightarrow> m \<le> 11 \<Longrightarrow> calendar_date \<lparr>getFullYear = y, getMonth = m, getDate = 1\<rparr>"
  using monthLength_bounds(1) [of y m] by (simp add: calendar_date_def)

lemma calendar_newDate: "calendar_date (newDate y m d)"
  by (simp add: newDate_def Let_def calendar_shiftDays calendar_first)

lemma calendar_setDate: "calendar_date dt \<Longrightarrow> calendar_date (setDate dt d)"
proof -
  assume a: "calendar_date dt"
  then have "calendar_date (dt\<lparr>getDate := 1\<rparr>)"
    using monthLength_bounds(1) [of "getFullYear dt" "getMonth dt"]
    by (simp add: calendar_date_def)
  then show ?thesis by (simp add: setDate_def calendar_shiftDays)
qed

lemma calendar_parseDate: "calendar_date now \<Longrightarrow> calendar_date (parseDate now txt)"
  by (auto simp: parseDate_def Let_def calendar_setDate calendar_newDate split: option.splits)

lemma calendar_extractDate: "calendar_date now \<Longrightarrow> calendar_date (extractDate now txt)"
  by (auto simp: extractDate_def Let_def calendar_parseDate split: option.splits)

lemma calendar_parse:
  assumes "calendar_date now" "parse now msg = Some p"
  shows "calendar_date (p_date p)"
  using assms
  by (auto simp: parse_def parseUpdate_def query_def Let_def calendar_extractDate
      split: option.splits if_splits)

text \<open>The layout gives each month of the calendar its length.\<close>

lemma leap_test:
  "((js_rem y 4 = 0 \<and> js_rem y 100 \<noteq> 0) \<or> js_rem y 400 = 0) = leap y"
proof -
  have "4 dvd y" if "400 dvd y"
    using dvd_trans [of 4 400 y] that by simp
  then have "((4 dvd y \<and> \<not> 100 dvd y) \<or> 400 dvd y) = (4 dvd y \<and> (\<not> 100 dvd y \<or> 400 dvd y))"
    by blast
  then show ?thesis
    by (simp add: js_rem_eq_0_iff leap_def dvd_eq_mod_eq_0)
qed

lemma lastValidDay_calendar:
  assumes "0 \<le> m" "m \<le> 11"
  shows "lastValidDay (m + 1) y = monthLength y m"
proof (cases "m = 1")
  case True
  then show ?thesis
    using leap_test [of y] by (simp add: lastValidDay_def getSheetConfig_def monthLength_def)
next
  case False
  with assms show ?thesis
    by (simp add: lastValidDay_def getSheetConfig_def monthLength_def)
qed

lemma request_day_in_month:
  assumes "calendar_date now" "handleMessage now msg = Update req"
  shows "1 \<le> req_day req" "req_day req \<le> lastValidDay (req_month req) (req_year req)"
proof -
  from assms(2) obtain p where p: "parse now msg = Some p" "req = updateRequest p"
    by (auto simp: handleMessage_def split: option.splits if_splits)
  from calendar_parse [OF assms(1) p(1)] have c: "calendar_date (p_date p)" .
  then show "1 \<le> req_day req"
    by (simp add: p(2) updateRequest_def calendar_date_def)
  from c show "req_day req \<le> lastValidDay (req_month req) (req_year req)"
    by (simp add: p(2) updateRequest_def calendar_date_def lastValidDay_calendar)
qed

subsection \<open>Days before and after\<close>

lemma monthLength_december: "monthLength y 11 = 31"
  by (simp add: monthLength_def)

lemma prevDay_nextDay: "calendar_date d \<Longrightarrow> prevDay (nextDay d) = d"
  using monthLength_bounds(1) [of "getFullYear d" "getMonth d"]
  by (cases d) (auto simp: calendar_date_def nextDay_def prevDay_def monthLength_december)

lemma forward_Suc_right: "forward (Suc n) d = nextDay (forward n d)"
  by (induction n arbitrary: d) simp_all

lemma backward_Suc_right: "backward (Suc n) d = prevDay (backward n d)"
  by (induction n arbitrary: d) simp_all

lemma forward_add: "forward (a + b) d = forward b (forward a d)"
  by (induction a arbitrary: d) simp_all

lemma backward_forward:
  "calendar_date d \<Longrightarrow>
     backward i (forward k d) = (if i \<le> k then forward (k - i) d else backward (i - k) d)"
proof (induction i arbitrary: k)
  case 0
  then show ?case by simp
next
  case (Suc i)
  show ?case
  proof (cases k)
    case 0
    then show ?thesis by simp
  next
    case (Suc k')
    have "backward (Suc i) (forward (Suc k') d) = backward i (prevDay (nextDay (forward k' d)))"
      by (simp only: forward_Suc_right backward.simps)
    also have "\<dots> = backward i (forward k' d)"
      by (simp add: prevDay_nextDay calendar_forward Suc.prems)
    finally show ?thesis
      using Suc.IH [OF Suc.prems, of k'] Suc by simp
  qed
qed

text \<open>A date of the calendar is its day of the month counted from the first.\<close>

lemma forward_from_first:
  "1 \<le> getDate d \<Longrightarrow> getDate d + int n \<le> monthLength (getFullYear d) (getMonth d) \<Longrightarrow>
     forward n d = d\<lparr>getDate := getDate d + int n\<rparr>"
proof (induction n arbitrary: d)
  case 0
  then show ?case by simp
next
  case (Suc n)
  then have "nextDay d = d\<lparr>getDate := getDate d + 1\<rparr>"
    by (simp add: nextDay_def)
  with Suc show ?case by (simp add: add.commute add.left_commute)
qed

lemma calendar_from_first:
  assumes "calendar_date d"
  shows "forward (nat (getDate d - 1)) (d\<lparr>getDate := 1\<rparr>) = d"
  using assms forward_from_first [of "d\<lparr>getDate := 1\<rparr>" "nat (getDate d - 1)"]
  by (simp add: calendar_date_def)

text \<open>\<open>setDate\<close> with today's day less \<open>i\<close> goes \<open>i\<close> days back.\<close>

lemma setDate_back:
  assumes "calendar_date today"
  shows "setDate today (getDate today - int i) = backward i today"
proof -
  define first where "first = today\<lparr>getDate := 1\<rparr>"
  define k where "k = nat (getDate today - 1)"
  have c: "calendar_date first"
    using assms monthLength_bounds(1) [of "getFullYear today" "getMonth today"]
    by (simp add: first_def calendar_date_def)
  have t: "today = forward k first"
    using calendar_from_first [OF assms] by (simp add: first_def k_def)
  have g: "getDate today = int k + 1"
    using assms by (simp add: k_def calendar_date_def)
  have "setDate today (getDate today - int i) = shiftDays (int k - int i) first"
    by (simp add: setDate_def first_def g)
  also have "\<dots> = (if i \<le> k then forward (k - i) first else backward (i - k) first)"
    by (auto simp: shiftDays_def nat_diff_distrib' of_nat_diff)
  also have "\<dots> = backward i (forward k first)"
    by (simp add: backward_forward [OF c])
  finally show ?thesis by (simp add: t [symmetric])
qed

subsection \<open>Date tokens\<close>

lemma digit_neq_slash: "is_digit c \<Longrightarrow> c \<noteq> CHR ''/''"
  by (auto simp: is_digit_iff)

lemma not_digit_slash: "\<not> is_digit CHR ''/''"
  by (simp add: is_digit_iff)

lemma lower_digit: "is_digit c \<Longrightarrow> lower_char c = c"
  by (auto simp: lower_char_def is_digit_iff Let_def)

lemma lower_slash: "lower_char CHR ''/'' = CHR ''/''"
  by (simp add: lower_char_def)

lemma digit_not_letter:
  assumes "is_digit c"
  shows "c \<noteq> CHR ''h''" "c \<noteq> CHR ''o''" "c \<noteq> CHR ''a''"
  using assms by (auto simp: is_digit_iff)

lemma digits12_cases:
  assumes "digits12 ds"
  obtains a where "ds = [a]" "is_digit a" | a b where "ds = [a, b]" "is_digit a" "is_digit b"
proof -
  from assms have l: "length ds = 1 \<or> length ds = 2" and d: "list_all is_digit ds"
    by (simp_all add: digits12_def)
  from l show ?thesis
  proof
    assume "length ds = 1"
    then obtain a where "ds = [a]" by (cases ds) auto
    with d that(1) show ?thesis by simp
  next
    assume "length ds = 2"
    then obtain a b where "ds = [a, b]"
      by (cases ds; cases "tl ds") auto
    with d that(2) show ?thesis by simp
  qed
qed

lemma full_date_token:
  assumes "digits12 dd" "digits12 mm"
  shows "rx_match rx_full_date (dd @ CHR ''/'' # mm) = Some (dd @ CHR ''/'' # mm, [(2, mm), (1, dd)])"
  using assms
  by (auto elim!: digits12_cases
      simp: rx_match_def rx_full_date_def seqs_def digit_def opt_def left_def
        digit_neq_slash not_digit_slash)

lemma token_normalized:
  assumes "digits12 dd" "digits12 mm"
  shows "trim (toLowerCase (dd @ CHR ''/'' # mm)) = dd @ CHR ''/'' # mm"
  using assms
  by (auto elim!: digits12_cases
      simp: trim_def toLowerCase_def lower_digit lower_slash digit_not_space)

lemma token_no_word:
  assumes "digits12 dd" "digits12 mm"
  shows "dd @ CHR ''/'' # mm \<noteq> ''hoje''" "dd @ CHR ''/'' # mm \<noteq> ''ontem''"
    "dd @ CHR ''/'' # mm \<noteq> ''amanha''" "dd @ CHR ''/'' # mm \<noteq> amanha_til"
  using assms
  by (auto elim!: digits12_cases simp: amanha_til_def digit_not_letter)

text \<open>
  \<open>parseDate\<close> on a token \<open>dd/mm\<close>: the date \<open>new Date\<close> makes of the day, the month
  and the current year.
\<close>

lemma parseDate_token:
  assumes "digits12 dd" "digits12 mm"
  shows "parseDate now (dd @ CHR ''/'' # mm) =
           newDate (if getFullYear now < 100 then getFullYear now + 2000 else getFullYear now)
             (parseInt mm - 1) (parseInt dd)"
  by (simp add: parseDate_def Let_def token_normalized [OF assms] token_no_word [OF assms]
        full_date_token [OF assms] captured_def)

subsection \<open>A day past the end of its month rolls over\<close>

lemma newDate_past_month_end:
  assumes y: "100 \<le> y" and m: "0 \<le> m" "m \<le> 11" and d: "monthLength y m < d"
  shows "newDate y m d =
           forward (nat (d - monthLength y m))
             \<lparr>getFullYear = y, getMonth = m, getDate = monthLength y m\<rparr>"
proof -
  define len where "len = monthLength y m"
  have len: "28 \<le> len" by (simp add: len_def monthLength_bounds)
  define first where "first = \<lparr>getFullYear = y, getMonth = m, getDate = 1\<rparr>"
  have "newDate y m d = forward (nat (d - 1)) first"
    using y m d len by (simp add: newDate_def shiftDays_def first_def len_def)
  also have "nat (d - 1) = nat (len - 1) + nat (d - len)"
    using d len by (simp add: len_def)
  also have "forward (nat (len - 1) + nat (d - len)) first
               = forward (nat (d - len)) (forward (nat (len - 1)) first)"
    by (rule forward_add)
  also have "forward (nat (len - 1)) first = first\<lparr>getDate := len\<rparr>"
    using len forward_from_first [of first "nat (len - 1)"] by (simp add: first_def len_def)
  finally show ?thesis by (simp add: first_def len_def)
qed

text \<open>Months counted from year 0, to compare the months of two dates.\<close>

lemma month_count_nextDay:
  "0 \<le> getMonth d \<Longrightarrow> getMonth d \<le> 11 \<Longrightarrow>
     12 * getFullYear d + getMonth d \<le> 12 * getFullYear (nextDay d) + getMonth (nextDay d)"
  by (simp add: nextDay_def)

lemma month_count_forward:
  "calendar_date d \<Longrightarrow>
     12 * getFullYear d + getMonth d \<le> 12 * getFullYear (forward n d) + getMonth (forward n d)"
proof (induction n arbitrary: d)
  case 0
  then show ?case by simp
next
  case (Suc n)
  have "12 * getFullYear d + getMonth d \<le> 12 * getFullYear (nextDay d) + getMonth (nextDay d)"
    using Suc.prems by (intro month_count_nextDay) (simp_all add: calendar_date_def)
  also have "\<dots> \<le> 12 * getFullYear (forward n (nextDay d)) + getMonth (forward n (nextDay d))"
    by (rule Suc.IH) (simp add: calendar_nextDay Suc.prems)
  finally show ?case by simp
qed

lemma rolled_over_later_month:
  fixes y m :: int and n :: nat
  assumes m: "0 \<le> m" "m \<le> 11" and n: "0 < n"
  defines "r \<equiv> forward n \<lparr>getFullYear = y, getMonth = m, getDate = monthLength y m\<rparr>"
  shows "12 * y + m < 12 * getFullYear r + getMonth r"
proof -
  define last where "last = \<lparr>getFullYear = y, getMonth = m, getDate = monthLength y m\<rparr>"
  from n obtain k where k: "n = Suc k" by (cases n) auto
  have c: "calendar_date last"
    using m monthLength_bounds(1) [of y m] by (simp add: last_def calendar_date_def)
  have "12 * y + m < 12 * getFullYear (nextDay last) + getMonth (nextDay last)"
    using m by (simp add: nextDay_def last_def)
  also have "\<dots> \<le> 12 * getFullYear (forward k (nextDay last)) + getMonth (forward k (nextDay last))"
    by (rule month_count_forward) (simp add: calendar_nextDay c)
  finally show ?thesis by (simp add: r_def k last_def)
qed

subsection \<open>Requests built from chat messages\<close>

lemma saida_31_04:
  "trim ''saida 5 31/04'' = ''saida 5 31/04''"
  "\<not> shouldReplace ''saida 5 31/04''"
  "detectType ''saida 5 31/04'' = Some Saida"
  "rx_match rx_date_group ''saida 5 31/04'' = Some (''31/04'', [(1, ''31/04'')])"
  "\<not> str_includes (toLowerCase ''saida 5 31/04'') ''hoje''"
  "\<not> str_includes (toLowerCase ''saida 5 31/04'') ''ontem''"
  "\<not> str_includes (toLowerCase ''saida 5 31/04'') ''amanha''"
  "\<not> str_includes (toLowerCase ''saida 5 31/04'') amanha_til"
  by code_simp+

lemma saida_31_04_number:
  "trim (rx_replace_all rx_date [] (trim (rx_replace_all rx_keywords [] (toLowerCase ''saida 5 31/04'')))) = ''5''"
  "rx_match rx_number ''5'' = Some (''5'', [])"
  by code_simp+

lemma normalizeValue_5: "normalizeValue ''5'' = Fin 5"
  by (simp add: normalizeValue_def Let_def trim_def is_space_def join_def parseFloat_def
        startsWith_def is_digit_iff digits_val_def digit_val_def exponent_def)

lemma digits12_examples: "digits12 ''31''" "digits12 ''04''"
  by (simp_all add: digits12_def is_digit_iff)

lemma calendar_jan2: "calendar_date jan2"
  by (simp add: calendar_date_def jan2_def monthLength_def)

lemma april_2025: "monthLength 2025 3 = 30"
  by (simp add: monthLength_def)

lemma parse_saida_31_04:
  "parse jan2 ''saida 5 31/04'' =
     Some \<lparr>p_type = Saida, p_value = Some (Fin 5), p_date = parseDate jan2 ''31/04'',
            rawText = ''saida 5 31/04'', p_shouldReplace = Some False, targetDate = None\<rparr>"
  by (simp add: parse_def parseUpdate_def extractValue_def extractDate_def Let_def captured_def
        saida_31_04 saida_31_04_number normalizeValue_5)

lemma updateValue_replies:
  "success (fst (updateValue r s))
   \<or> (\<exists>err. fst (updateValue r s) = save_error err)
   \<or> (req_day r < 1 \<or> 31 < req_day r) \<and> fst (updateValue r s) = invalidDay r
   \<or> (1 \<le> req_day r \<and> req_day r \<le> 31 \<and> lastValidDay (req_month r) (req_year r) < req_day r)
       \<and> fst (updateValue r s) = dayPastMonth r"
  by (auto simp: updateValue_def storeValue_def readCell_def writeCell_def Let_def
        invalidDay_def dayPastMonth_def lastValidDay_def
      split: option.splits)

lemma day_replies_differ:
  "save_error err \<noteq> invalidDay r" "save_error err \<noteq> dayPastMonth r"
  "success b \<Longrightarrow> b \<noteq> invalidDay r" "success b \<Longrightarrow> b \<noteq> dayPastMonth r"
  by (auto simp: save_error_def invalidDay_def dayPastMonth_def failure_def cross_mark_def)

lemma updateValue_without_value: "req_value r = None \<Longrightarrow> \<not> success (fst (updateValue r s))"
  by (auto simp: updateValue_def storeValue_def readCell_def writeCell_def Let_def
        save_error_def failure_def
      split: option.splits)

lemma ajuda: "detectType ''ajuda'' = Some Ajuda" "trim ''ajuda'' = ''ajuda''"
  "shouldReplace ''ajuda'' = False"
  by code_simp+

text \<open>
  The message \<open>ajuda\<close> is parsed as a command of type \<open>ajuda\<close>, for which
  \<open>handleMessage\<close> has no branch: it is sent to \<open>updateValue\<close> as a request without
  a value.  There the cell addressed has no column letter, the sum with the undefined
  value is NaN, which is written, and the reply is the failure of the \<open>catch\<close> clause.
\<close>

lemma help_is_sent_to_update:
  "handleMessage jan2 ''ajuda''
     = Update \<lparr>req_type = Ajuda, req_value = None, req_day = 2, req_month = 1, req_year = 2025,
                req_shouldReplace = Some False\<rparr>"
  "updateValue \<lparr>req_type = Ajuda, req_value = None, req_day = 2, req_month = 1, req_year = 2025,
                 req_shouldReplace = Some False\<rparr> blank_sheets
     = (save_error toFixed_of_undefined,
        blank_sheets\<lparr>cells := (cells blank_sheets)(''7'' \<mapsto> ''R$ NaN''),
                       calls := [ReadCell ''7'', WriteCell ''7'' ''R$ NaN'']\<rparr>)"
  by (simp_all add: handleMessage_def parse_def ajuda query_def updateRequest_def jan2_def
        updateValue_def storeValue_def plus_value_def readCell_def writeCell_def received_def
        blank_sheets_def getSheetConfig_def getColumnLetter_def baseColumns_def getRowNumber_def
        parseValue_None formatValue_def int_string_examples Let_def)

text \<open>
  C9.  Let the day of the request be a date of the calendar.  First, a token \<open>dd/mm\<close>
  of a month 1 to 12 whose day exceeds the length of that month in the current year
  (a year of at least three digits) is resolved by \<open>parseDate\<close> to the date that many
  days after the last day of the month: a date of the calendar, in a later month.
  Second, every request \<open>handleMessage\<close> builds from a message has a day between 1 and
  the number of days the layout gives its month, so neither day check of \<open>updateValue\<close>
  rejects it: whatever the storage, the reply is not one of the two replies that reject
  a day.  The update can still fail: it succeeds when the request has an amount and the
  storage refuses no call, and it never succeeds for a request without an amount.
\<close>

theorem chat_dates_stay_in_month:
  fixes now :: jsdate and dd mm msg :: string and req :: UpdateRequest and s :: sheets
  assumes "calendar_date now"
  defines "len \<equiv> monthLength (getFullYear now) (parseInt mm - 1)"
  defines "r \<equiv> parseDate now (dd @ ''/'' @ mm)"
  shows "(100 \<le> getFullYear now \<and> digits12 dd \<and> digits12 mm
            \<and> 1 \<le> parseInt mm \<and> parseInt mm \<le> 12 \<and> len < parseInt dd
          \<longrightarrow> r = forward (nat (parseInt dd - len))
                     \<lparr>getFullYear = getFullYear now, getMonth = parseInt mm - 1, getDate = len\<rparr>
              \<and> calendar_date r
              \<and> 12 * getFullYear now + (parseInt mm - 1) < 12 * getFullYear r + getMonth r)
       \<and> (handleMessage now msg = Update req
          \<longrightarrow> 1 \<le> req_day req \<and> req_day req \<le> 31
              \<and> req_day req \<le> lastValidDay (req_month req) (req_year req)
              \<and> (\<forall>r'. fst (updateValue req s) \<noteq> invalidDay r'
                       \<and> fst (updateValue req s) \<noteq> dayPastMonth r')
              \<and> (req_value req \<noteq> None \<and> refuses s = (\<lambda>c. None)
                    \<longrightarrow> success (fst (updateValue req s)))
              \<and> (req_value req = None \<longrightarrow> \<not> success (fst (updateValue req s))))"
proof (intro conjI impI allI)
  assume a: "100 \<le> getFullYear now \<and> digits12 dd \<and> digits12 mm
               \<and> 1 \<le> parseInt mm \<and> parseInt mm \<le> 12 \<and> len < parseInt dd"
  then have "r = newDate (getFullYear now) (parseInt mm - 1) (parseInt dd)"
    by (simp add: r_def parseDate_token)
  with a show r: "r = forward (nat (parseInt dd - len))
                     \<lparr>getFullYear = getFullYear now, getMonth = parseInt mm - 1, getDate = len\<rparr>"
    by (simp add: len_def newDate_past_month_end)
  show "calendar_date r"
    by (simp add: r_def calendar_parseDate assms(1))
  from a show "12 * getFullYear now + (parseInt mm - 1) < 12 * getFullYear r + getMonth r"
    unfolding r len_def by (intro rolled_over_later_month) simp_all
next
  assume u: "handleMessage now msg = Update req"
  note d = request_day_in_month [OF assms(1) u]
  show "1 \<le> req_day req" by (rule d(1))
  show m: "req_day req \<le> lastValidDay (req_month req) (req_year req)" by (rule d(2))
  have "lastValidDay (req_month req) (req_year req) \<le> 31"
    by (simp add: lastValidDay_def getSheetConfig_def Let_def)
  with m show top: "req_day req \<le> 31" by simp
  from updateValue_replies [of req s] d top
  have ok: "success (fst (updateValue req s)) \<or> (\<exists>err. fst (updateValue req s) = save_error err)"
    by auto
  show "fst (updateValue req s) \<noteq> invalidDay r'" for r'
    using ok day_replies_differ(1,3) [of _ r'] by metis
  show "fst (updateValue req s) \<noteq> dayPastMonth r'" for r'
    using ok day_replies_differ(2,4) [of _ r'] by metis
next
  assume u: "handleMessage now msg = Update req"
    and v: "req_value req \<noteq> None \<and> refuses s = (\<lambda>c. None)"
  note d = request_day_in_month [OF assms(1) u]
  from d v show "success (fst (updateValue req s))"
    by (intro updateValue_succeeds(1)) simp_all
next
  assume "req_value req = None"
  then show "\<not> success (fst (updateValue req s))"
    by (rule updateValue_without_value)
qed

theorem chat_dates_stay_in_month_witness:
  "calendar_date jan2
   \<and> parseDate jan2 ''31/04'' = \<lparr>getFullYear = 2025, getMonth = 4, getDate = 1\<rparr>
   \<and> handleMessage jan2 ''saida 5 31/04''
       = Update \<lparr>req_type = Saida, req_value = Some (Fin 5), req_day = 1, req_month = 5,
                  req_year = 2025, req_shouldReplace = Some False\<rparr>
   \<and> lastValidDay 5 2025 = 31
   \<and> refuses blank_sheets = (\<lambda>c. None)
   \<and> success (fst (updateValue \<lparr>req_type = Saida, req_value = Some (Fin 5), req_day = 1,
                                   req_month = 5, req_year = 2025,
                                   req_shouldReplace = Some False\<rparr> blank_sheets))"
proof -
  let ?req = "\<lparr>req_type = Saida, req_value = Some (Fin 5), req_day = 1, req_month = 5,
               req_year = 2025, req_shouldReplace = Some False\<rparr>"
  note w = chat_dates_stay_in_month [OF calendar_jan2, where dd = "''31''" and mm = "''04''"
      and msg = "''saida 5 31/04''" and req = ?req and s = blank_sheets]
  have p: "parseDate jan2 ''31/04'' = \<lparr>getFullYear = 2025, getMonth = 4, getDate = 1\<rparr>"
    using w [THEN conjunct1]
    by (simp add: jan2_simps digits12_examples parseInt_examples april_2025 nextDay_def)
  have h: "handleMessage jan2 ''saida 5 31/04'' = Update ?req"
    by (simp add: handleMessage_def parse_saida_31_04 updateRequest_def p)
  have l: "lastValidDay 5 2025 = 31"
    by (simp add: lastValidDay_def getSheetConfig_def)
  from w [THEN conjunct2] h
  have "success (fst (updateValue ?req blank_sheets))"
    by (simp add: blank_sheets_simps)
  then show ?thesis
    by (simp add: calendar_jan2 p h l blank_sheets_simps)
qed

subsection \<open>The week report\<close>

declare weekLoop.simps [simp del]

lemma nextDay_prevDay: "calendar_date d \<Longrightarrow> nextDay (prevDay d) = d"
  using monthLength_bounds(1) [of "getFullYear d" "getMonth d - 1"]
  by (cases d) (auto simp: calendar_date_def nextDay_def prevDay_def monthLength_december)

lemma forward_backward: "calendar_date d \<Longrightarrow> forward n (backward n d) = d"
proof (induction n arbitrary: d)
  case 0
  then show ?case by simp
next
  case (Suc n)
  have "forward (Suc n) (backward (Suc n) d) = nextDay (forward n (backward n (prevDay d)))"
    by (simp only: forward_Suc_right backward.simps)
  also have "\<dots> = nextDay (prevDay d)"
    using Suc.prems by (simp add: Suc.IH calendar_prevDay)
  finally show ?case using Suc.prems by (simp add: nextDay_prevDay)
qed

lemma getDayData_call:
  "getDayData d m y s = (fst (getDayData d m y s), received (ReadRange (dayRange d m y)) s)"
  by (simp add: getDayData_def readRange_def split: option.splits list.splits)

lemma dayRead_same_answers:
  "grid s' = grid s \<Longrightarrow> refuses s' = refuses s \<Longrightarrow> dayRead s' d = dayRead s d"
  by (simp add: dayRead_def getDayData_def readRange_def split: option.splits list.splits)

lemma weekLoop_steps:
  assumes "calendar_date today"
  shows "weekLoop today (int n - 1) acc s =
           (let ds = map (\<lambda>k. backward k today) (rev [0..<n]);
                read = List.map_filter (dayRead s) ds
            in (\<lparr>days = days acc @ read,
                 weekEntradas = foldl js_add (weekEntradas acc) (map entrada read),
                 weekSaidas = foldl js_add (weekSaidas acc) (map saida read),
                 weekDiario = foldl js_add (weekDiario acc) (map diario read)\<rparr>,
                s\<lparr>calls := calls s @ map dayCall ds\<rparr>))"
proof (induction n arbitrary: acc s)
  case 0
  show ?case by (simp add: weekLoop.simps [of today "- 1"] List.map_filter_simps)
next
  case (Suc n)
  define date where "date = backward n today"
  define s' where "s' = received (dayCall date) s"
  have d: "setDate today (getDate today - int n) = date"
    using assms by (simp add: setDate_back date_def)
  have g: "getDayData (getDate date) (getMonth date + 1) (getFullYear date) s = (dayRead s date, s')"
    using getDayData_call [of "getDate date" "getMonth date + 1" "getFullYear date" s]
    by (simp add: dayRead_def s'_def dayCall_def)
  have same: "dayRead s' = dayRead s"
    by (rule ext, rule dayRead_same_answers) (simp_all add: s'_def received_def)
  have c: "s'\<lparr>calls := calls s' @ cs\<rparr> = s\<lparr>calls := calls s @ dayCall date # cs\<rparr>" for cs
    by (simp add: s'_def received_def)
  have r: "rev [0..<Suc n] = n # rev [0..<n]" by simp
  show ?case
  proof (cases "dayRead s date")
    case None
    have "weekLoop today (int (Suc n) - 1) acc s = weekLoop today (int n - 1) acc s'"
      by (subst weekLoop.simps) (simp add: d g None)
    then show ?thesis
      by (simp only: Suc.IH r) (simp add: same c date_def None [unfolded date_def] List.map_filter_simps Let_def)
  next
    case (Some dd)
    have "weekLoop today (int (Suc n) - 1) acc s =
            weekLoop today (int n - 1)
              \<lparr>days = days acc @ [dd],
                weekEntradas = js_add (weekEntradas acc) (entrada dd),
                weekSaidas = js_add (weekSaidas acc) (saida dd),
                weekDiario = js_add (weekDiario acc) (diario dd)\<rparr> s'"
      by (subst weekLoop.simps) (simp add: d g Some)
    then show ?thesis
      by (simp only: Suc.IH r) (simp add: same c date_def Some [unfolded date_def] List.map_filter_simps Let_def)
  qed
qed

lemma week_indices: "rev [0..<7] = [6, 5, 4, 3, 2, 1, 0]"
  by code_simp

lemma getWeekReport_steps:
  fixes today :: jsdate and s :: sheets
  assumes "calendar_date today"
  defines "read \<equiv> List.map_filter (dayRead s) (weekDays today)"
  shows "getWeekReport today s =
           (\<lparr>totalEntradas_w = sum_amounts (map entrada read),
             totalSaidas_w = sum_amounts (map saida read),
             totalDiario_w = sum_amounts (map diario read),
             saldoFinal = (if read = [] then Fin 0 else saldo (last read)),
             mediaDiaria_w =
               js_div (js_add (js_add (sum_amounts (map entrada read)) (sum_amounts (map saida read)))
                         (sum_amounts (map diario read))) (Fin 7)\<rparr>,
            s\<lparr>calls := calls s @ map dayCall (weekDays today)\<rparr>)"
proof -
  have w: "map (\<lambda>k. backward k today) (rev [0..<7]) = weekDays today"
    by (simp only: week_indices weekDays_def)
  have "weekLoop today 6 \<lparr>days = [], weekEntradas = Fin 0, weekSaidas = Fin 0, weekDiario = Fin 0\<rparr> s =
          (\<lparr>days = read,
            weekEntradas = sum_amounts (map entrada read),
            weekSaidas = sum_amounts (map saida read),
            weekDiario = sum_amounts (map diario read)\<rparr>,
           s\<lparr>calls := calls s @ map dayCall (weekDays today)\<rparr>)"
    using weekLoop_steps [OF assms(1), of 7
        "\<lparr>days = [], weekEntradas = Fin 0, weekSaidas = Fin 0, weekDiario = Fin 0\<rparr>" s]
    by (simp only: w Let_def) (simp add: read_def sum_amounts_def)
  then show ?thesis
    by (simp add: getWeekReport_def)
qed

lemma weekDays_nth:
  "k < 7 \<Longrightarrow> weekDays today ! k = backward (6 - k) today"
proof -
  assume "k < 7"
  then have "k = 0 \<or> k = 1 \<or> k = 2 \<or> k = 3 \<or> k = 4 \<or> k = 5 \<or> k = 6" by arith
  then show ?thesis
    unfolding weekDays_def by (elim disjE) simp_all
qed

lemma dayRead_answers:
  "refuses s (dayCall d) = None \<Longrightarrow> dayRead s d \<noteq> None"
  by (simp add: dayRead_def dayCall_def getDayData_def readRange_def split: list.splits)

lemma map_filter_all:
  "\<forall>x\<in>set xs. f x \<noteq> None \<Longrightarrow> List.map_filter f xs = map (\<lambda>x. the (f x)) xs"
  by (induction xs) (auto simp: List.map_filter_simps)

text \<open>
  C6, as the program has it.  For a clock reading \<open>today\<close> that is a calendar date,
  \<open>getWeekReport\<close> issues seven range reads and no other call, one for each of the
  seven days from six days before \<open>today\<close> up to \<open>today\<close>, oldest first, and
  changes nothing else of the storage.
  Its three totals are the sums of the entrada, saida and diario fields of the days whose
  read answered (a day whose read throws is left out), and its final balance is the saldo
  field of the latest of these days, or 0 when no read answered.  When no read of the
  week is refused all seven days are summed and the final balance is the saldo of
  \<open>today\<close>.
\<close>

theorem week_report_reads_seven_days:
  fixes today :: jsdate and s :: sheets
  assumes "calendar_date today"
  defines "read \<equiv> List.map_filter (dayRead s) (weekDays today)"
  defines "report \<equiv> fst (getWeekReport today s)"
  shows "totalEntradas_w report = sum_amounts (map entrada read)
       \<and> totalSaidas_w report = sum_amounts (map saida read)
       \<and> totalDiario_w report = sum_amounts (map diario read)
       \<and> saldoFinal report = (if read = [] then Fin 0 else saldo (last read))
       \<and> snd (getWeekReport today s) = s\<lparr>calls := calls s @ map dayCall (weekDays today)\<rparr>
       \<and> length (weekDays today) = 7
       \<and> (\<forall>k<7. calendar_date (weekDays today ! k) \<and> forward (6 - k) (weekDays today ! k) = today)
       \<and> ((\<forall>d\<in>set (weekDays today). refuses s (dayCall d) = None)
            \<longrightarrow> read = map (\<lambda>d. the (dayRead s d)) (weekDays today)
                \<and> saldoFinal report = saldo (the (dayRead s today)))"
proof -
  note g = getWeekReport_steps [OF assms(1), of s, folded read_def]
  have days: "\<forall>k<7. calendar_date (weekDays today ! k) \<and> forward (6 - k) (weekDays today ! k) = today"
    using assms(1) by (simp add: weekDays_nth calendar_backward forward_backward)
  have all: "read = map (\<lambda>d. the (dayRead s d)) (weekDays today)
               \<and> saldoFinal report = saldo (the (dayRead s today))"
    if "\<forall>d\<in>set (weekDays today). refuses s (dayCall d) = None"
  proof -
    from that have "\<forall>d\<in>set (weekDays today). dayRead s d \<noteq> None"
      by (simp add: dayRead_answers)
    then have r: "read = map (\<lambda>d. the (dayRead s d)) (weekDays today)"
      unfolding read_def by (rule map_filter_all)
    have "read \<noteq> []" "last read = the (dayRead s today)"
      by (simp_all add: r weekDays_def)
    then show ?thesis
      using r by (simp add: report_def g)
  qed
  have t: "totalEntradas_w report = sum_amounts (map entrada read)"
    "totalSaidas_w report = sum_amounts (map saida read)"
    "totalDiario_w report = sum_amounts (map diario read)"
    "saldoFinal report = (if read = [] then Fin 0 else saldo (last read))"
    "snd (getWeekReport today s) = s\<lparr>calls := calls s @ map dayCall (weekDays today)\<rparr>"
    by (simp_all add: report_def g)
  have len: "length (weekDays today) = 7"
    by (simp add: weekDays_def)
  from t len days all show ?thesis
    by blast
qed

lemma two_days_simps:
  "cells two_days = (\<lambda>c. None)" "refuses two_days = (\<lambda>c. None)" "calls two_days = []"
  "grid two_days ''C6:G6'' = [[''R$ 100,00'', [], [], ''R$ 100,00'']]"
  "grid two_days ''C7:G7'' = [[[], ''R$ 10,00'', ''R$ 5,00'', ''R$ 87,10'']]"
  "grid two_days ''BQ32:BU32'' = []" "grid two_days ''BQ33:BU33'' = []"
  "grid two_days ''BQ34:BU34'' = []" "grid two_days ''BQ35:BU35'' = []"
  "grid two_days ''BQ36:BU36'' = []"
  by (simp_all add: two_days_def)

lemma weekDays_jan2:
  "weekDays jan2 =
     [\<lparr>getFullYear = 2024, getMonth = 11, getDate = 27\<rparr>,
      \<lparr>getFullYear = 2024, getMonth = 11, getDate = 28\<rparr>,
      \<lparr>getFullYear = 2024, getMonth = 11, getDate = 29\<rparr>,
      \<lparr>getFullYear = 2024, getMonth = 11, getDate = 30\<rparr>,
      \<lparr>getFullYear = 2024, getMonth = 11, getDate = 31\<rparr>,
      \<lparr>getFullYear = 2025, getMonth = 0, getDate = 1\<rparr>,
      jan2]"
  by (simp add: weekDays_def jan2_def prevDay_def)

lemma dayRange_examples:
  "dayRange 27 12 2024 = ''BQ32:BU32''" "dayRange 28 12 2024 = ''BQ33:BU33''"
  "dayRange 29 12 2024 = ''BQ34:BU34''" "dayRange 30 12 2024 = ''BQ35:BU35''"
  "dayRange 31 12 2024 = ''BQ36:BU36''" "dayRange 1 1 2025 = ''C6:G6''"
  "dayRange 2 1 2025 = ''C7:G7''"
  by code_simp+

lemma dayCall_examples:
  "map dayCall (weekDays jan2) =
     [ReadRange ''BQ32:BU32'', ReadRange ''BQ33:BU33'', ReadRange ''BQ34:BU34'',
      ReadRange ''BQ35:BU35'', ReadRange ''BQ36:BU36'', ReadRange ''C6:G6'', ReadRange ''C7:G7'']"
  by (simp add: weekDays_jan2 dayCall_def jan2_simps dayRange_examples)

lemma blank_day:
  "grid s (dayRange d m y) = [] \<Longrightarrow> refuses s = (\<lambda>c. None) \<Longrightarrow>
     dayRead s \<lparr>getFullYear = y, getMonth = m - 1, getDate = d\<rparr>
       = Some \<lparr>dd_day = d, dd_month = m, dd_year = y, entrada = Fin 0, saida = Fin 0,
                diario = Fin 0, saldo = Fin 0\<rparr>"
  by (simp add: dayRead_def getDayData_def readRange_def)

lemma dayRead_examples:
  "dayRead two_days \<lparr>getFullYear = 2025, getMonth = 0, getDate = 1\<rparr>
     = Some \<lparr>dd_day = 1, dd_month = 1, dd_year = 2025, entrada = Fin 100, saida = Fin 0,
              diario = Fin 0, saldo = Fin 100\<rparr>"
  "dayRead two_days jan2
     = Some \<lparr>dd_day = 2, dd_month = 1, dd_year = 2025, entrada = Fin 0, saida = Fin 10,
              diario = Fin 5, saldo = Fin (871 / 10)\<rparr>"
  by (simp_all add: dayRead_def getDayData_def readRange_def jan2_simps dayRange_examples
        two_days_simps cell_at_def or_null_def parseValue_None parseValue_examples)

lemma week_read_jan2:
  "List.map_filter (dayRead two_days) (weekDays jan2) =
     [\<lparr>dd_day = 27, dd_month = 12, dd_year = 2024, entrada = Fin 0, saida = Fin 0,
        diario = Fin 0, saldo = Fin 0\<rparr>,
      \<lparr>dd_day = 28, dd_month = 12, dd_year = 2024, entrada = Fin 0, saida = Fin 0,
        diario = Fin 0, saldo = Fin 0\<rparr>,
      \<lparr>dd_day = 29, dd_month = 12, dd_year = 2024, entrada = Fin 0, saida = Fin 0,
        diario = Fin 0, saldo = Fin 0\<rparr>,
      \<lparr>dd_day = 30, dd_month = 12, dd_year = 2024, entrada = Fin 0, saida = Fin 0,
        diario = Fin 0, saldo = Fin 0\<rparr>,
      \<lparr>dd_day = 31, dd_month = 12, dd_year = 2024, entrada = Fin 0, saida = Fin 0,
        diario = Fin 0, saldo = Fin 0\<rparr>,
      \<lparr>dd_day = 1, dd_month = 1, dd_year = 2025, entrada = Fin 100, saida = Fin 0,
        diario = Fin 0, saldo = Fin 100\<rparr>,
      \<lparr>dd_day = 2, dd_month = 1, dd_year = 2025, entrada = Fin 0, saida = Fin 10,
        diario = Fin 5, saldo = Fin (871 / 10)\<rparr>]"
  using blank_day [of two_days 27 12 2024] blank_day [of two_days 28 12 2024]
    blank_day [of two_days 29 12 2024] blank_day [of two_days 30 12 2024]
    blank_day [of two_days 31 12 2024]
  by (simp add: weekDays_jan2 List.map_filter_simps dayRead_examples dayRange_examples
        two_days_simps)

theorem week_report_reads_seven_days_witness:
  "calendar_date jan2
   \<and> totalEntradas_w (fst (getWeekReport jan2 two_days)) = Fin 100
   \<and> totalSaidas_w (fst (getWeekReport jan2 two_days)) = Fin 10
   \<and> totalDiario_w (fst (getWeekReport jan2 two_days)) = Fin 5
   \<and> saldoFinal (fst (getWeekReport jan2 two_days)) = Fin (871 / 10)
   \<and> calls (snd (getWeekReport jan2 two_days))
       = [ReadRange ''BQ32:BU32'', ReadRange ''BQ33:BU33'', ReadRange ''BQ34:BU34'',
          ReadRange ''BQ35:BU35'', ReadRange ''BQ36:BU36'', ReadRange ''C6:G6'',
          ReadRange ''C7:G7'']
   \<and> length (weekDays jan2) = 7
   \<and> forward 6 (weekDays jan2 ! 0) = jan2
   \<and> list_all (\<lambda>d. refuses two_days (dayCall d) = None) (weekDays jan2)
   \<and> sum_amounts (map saldo (List.map_filter (dayRead two_days) (weekDays jan2)))
       = Fin (1871 / 10)"
proof -
  note w = week_report_reads_seven_days [OF calendar_jan2, where s = two_days]
  have a: "sum_amounts (map saldo (List.map_filter (dayRead two_days) (weekDays jan2)))
             = Fin (1871 / 10)"
    by (simp add: week_read_jan2 sum_amounts_def)
  have r: "list_all (\<lambda>d. refuses two_days (dayCall d) = None) (weekDays jan2)"
    by (simp add: two_days_simps list_all_iff)
  have t: "totalEntradas_w (fst (getWeekReport jan2 two_days)) = Fin 100"
    "totalSaidas_w (fst (getWeekReport jan2 two_days)) = Fin 10"
    "totalDiario_w (fst (getWeekReport jan2 two_days)) = Fin 5"
    "saldoFinal (fst (getWeekReport jan2 two_days)) = Fin (871 / 10)"
    using w [THEN conjunct1] w [THEN conjunct2, THEN conjunct1]
      w [THEN conjunct2, THEN conjunct2, THEN conjunct1]
      w [THEN conjunct2, THEN conjunct2, THEN conjunct2, THEN conjunct1]
    by (simp_all add: week_read_jan2 sum_amounts_def)
  have c: "calls (snd (getWeekReport jan2 two_days)) = map dayCall (weekDays jan2)"
    using w [THEN conjunct2, THEN conjunct2, THEN conjunct2, THEN conjunct2, THEN conjunct1]
    by (simp add: two_days_simps)
  have l: "length (weekDays jan2) = 7"
    using w by blast
  have "\<forall>k<7. calendar_date (weekDays jan2 ! k) \<and> forward (6 - k) (weekDays jan2 ! k) = jan2"
    using w by blast
  then have "0 < (7::nat) \<longrightarrow> forward (6 - 0) (weekDays jan2 ! 0) = jan2"
    by blast
  then have f: "forward 6 (weekDays jan2 ! 0) = jan2"
    by simp
  from a r t c l f show ?thesis
    by (simp add: calendar_jan2 dayCall_examples)
qed

lemma second_refused_simps:
  "grid second_refused = grid two_days" "calls second_refused = []"
  "refuses second_refused (ReadRange ''C7:G7'') = Some ''Quota exceeded''"
  "refuses second_refused (ReadRange ''C6:G6'') = None"
  "refuses second_refused (ReadRange ''BQ32:BU32'') = None"
  "refuses second_refused (ReadRange ''BQ33:BU33'') = None"
  "refuses second_refused (ReadRange ''BQ34:BU34'') = None"
  "refuses second_refused (ReadRange ''BQ35:BU35'') = None"
  "refuses second_refused (ReadRange ''BQ36:BU36'') = None"
  by (simp_all add: second_refused_def two_days_simps)

lemma dayRead_refused:
  "refuses s (dayCall d) \<noteq> None \<Longrightarrow> dayRead s d = None"
  by (auto simp: dayRead_def dayCall_def getDayData_def readRange_def)

lemma dayRead_granted:
  "refuses s (dayCall d) = None \<Longrightarrow> grid s = grid s' \<Longrightarrow> refuses s' (dayCall d) = None \<Longrightarrow>
     dayRead s d = dayRead s' d"
  by (simp add: dayRead_def dayCall_def getDayData_def readRange_def split: list.splits)

lemma week_read_second_refused:
  "List.map_filter (dayRead second_refused) (weekDays jan2) =
     [\<lparr>dd_day = 27, dd_month = 12, dd_year = 2024, entrada = Fin 0, saida = Fin 0,
        diario = Fin 0, saldo = Fin 0\<rparr>,
      \<lparr>dd_day = 28, dd_month = 12, dd_year = 2024, entrada = Fin 0, saida = Fin 0,
        diario = Fin 0, saldo = Fin 0\<rparr>,
      \<lparr>dd_day = 29, dd_month = 12, dd_year = 2024, entrada = Fin 0, saida = Fin 0,
        diario = Fin 0, saldo = Fin 0\<rparr>,
      \<lparr>dd_day = 30, dd_month = 12, dd_year = 2024, entrada = Fin 0, saida = Fin 0,
        diario = Fin 0, saldo = Fin 0\<rparr>,
      \<lparr>dd_day = 31, dd_month = 12, dd_year = 2024, entrada = Fin 0, saida = Fin 0,
        diario = Fin 0, saldo = Fin 0\<rparr>,
      \<lparr>dd_day = 1, dd_month = 1, dd_year = 2025, entrada = Fin 100, saida = Fin 0,
        diario = Fin 0, saldo = Fin 100\<rparr>]"
proof -
  have g: "dayRead second_refused d = dayRead two_days d"
    if "refuses second_refused (dayCall d) = None" for d
    using that by (intro dayRead_granted) (simp_all add: second_refused_simps two_days_simps)
  have r: "dayRead second_refused jan2 = None"
    by (rule dayRead_refused) (simp add: dayCall_def jan2_simps dayRange_examples second_refused_simps)
  show ?thesis
    using blank_day [of two_days 27 12 2024] blank_day [of two_days 28 12 2024]
      blank_day [of two_days 29 12 2024] blank_day [of two_days 30 12 2024]
      blank_day [of two_days 31 12 2024]
    by (simp add: weekDays_jan2 List.map_filter_simps r g dayCall_def dayRange_examples
          second_refused_simps dayRead_examples two_days_simps)
qed

text \<open>
  C6 as stated fails when a read throws.  On the sheet \<open>two_days\<close> the second of January
  has a saida of 10, a diario of 5 and a saldo of 87,10.  When the service refuses the
  read of that day, the report of the week ending that day still issues its seven
  reads, but sums six days: its saidas are 0 and its diario is 0, and its final balance
  is the saldo of the first of January.
\<close>

theorem week_report_counterexample:
  "calendar_date jan2
   \<and> last (weekDays jan2) = jan2
   \<and> grid second_refused = grid two_days
   \<and> map (\<lambda>d. saida d) (List.map_filter (dayRead two_days) (weekDays jan2))
       = [Fin 0, Fin 0, Fin 0, Fin 0, Fin 0, Fin 0, Fin 10]
   \<and> calls (snd (getWeekReport jan2 second_refused))
       = [ReadRange ''BQ32:BU32'', ReadRange ''BQ33:BU33'', ReadRange ''BQ34:BU34'',
          ReadRange ''BQ35:BU35'', ReadRange ''BQ36:BU36'', ReadRange ''C6:G6'',
          ReadRange ''C7:G7'']
   \<and> length (List.map_filter (dayRead second_refused) (weekDays jan2)) = 6
   \<and> totalSaidas_w (fst (getWeekReport jan2 second_refused)) = Fin 0
   \<and> totalDiario_w (fst (getWeekReport jan2 second_refused)) = Fin 0
   \<and> saldoFinal (fst (getWeekReport jan2 second_refused)) = Fin 100
   \<and> map_option saldo (dayRead two_days jan2) = Some (Fin (871 / 10))"
proof -
  note g = getWeekReport_steps [OF calendar_jan2, of second_refused]
  have c: "calls (snd (getWeekReport jan2 second_refused))
             = [ReadRange ''BQ32:BU32'', ReadRange ''BQ33:BU33'', ReadRange ''BQ34:BU34'',
                ReadRange ''BQ35:BU35'', ReadRange ''BQ36:BU36'', ReadRange ''C6:G6'',
                ReadRange ''C7:G7'']"
    by (simp add: g second_refused_simps dayCall_examples)
  have t: "totalSaidas_w (fst (getWeekReport jan2 second_refused)) = Fin 0"
    "totalDiario_w (fst (getWeekReport jan2 second_refused)) = Fin 0"
    "saldoFinal (fst (getWeekReport jan2 second_refused)) = Fin 100"
    "length (List.map_filter (dayRead second_refused) (weekDays jan2)) = 6"
    by (simp_all add: g week_read_second_refused sum_amounts_def)
  have l: "last (weekDays jan2) = jan2"
    by (simp add: weekDays_jan2)
  have m: "map (\<lambda>d. saida d) (List.map_filter (dayRead two_days) (weekDays jan2))
             = [Fin 0, Fin 0, Fin 0, Fin 0, Fin 0, Fin 0, Fin 10]"
    by (simp add: week_read_jan2)
  have d: "map_option saldo (dayRead two_days jan2) = Some (Fin (871 / 10))"
    by (simp add: dayRead_examples)
  from c t l m d show ?thesis
    by (simp add: calendar_jan2 second_refused_simps)
qed

end
